theory Spec2Isabelle
  imports Main "HOL-Library.Sublist"
begin

section \<open>Effects of a command run\<close>

text \<open>
  The commands of \<^verbatim>\<open>azure-extensions-cli\<close> are glue around a management client: they read
  flags, read a certificate file, call the client and write to the two output streams.
  A run is modelled by the list of effects it performs, in program order, together with
  either the value it returns or the exit status of the process (\<^verbatim>\<open>log.Fatal\<close> and
  \<^verbatim>\<open>log.Fatalf\<close> end the process with status 1).
\<close>

type_synonym bytes = string

text \<open>A Go \<^verbatim>\<open>error\<close> value: one made elsewhere, or one made by \<^verbatim>\<open>fmt.Errorf(format, err)\<close>.\<close>

datatype error = ErrorNew string | Errorf string error

text \<open>
  Log messages and formatted errors keep their format string and arguments apart, so that
  what is reported can be read off without a model of \<^verbatim>\<open>fmt\<close>.
\<close>

datatype arg = ArgString string | ArgError error

datatype message = Sprintf string "arg list" | Sprint "arg list"

datatype Level = PanicLevel | FatalLevel | ErrorLevel | WarnLevel | InfoLevel | DebugLevel

fun level_rank :: "Level \<Rightarrow> nat" where
  "level_rank PanicLevel = 0"
| "level_rank FatalLevel = 1"
| "level_rank ErrorLevel = 2"
| "level_rank WarnLevel = 3"
| "level_rank InfoLevel = 4"
| "level_rank DebugLevel = 5"

datatype stream = Stdout | Stderr

text \<open>
  What is written to a stream: a log entry (level, fields, message), raw bytes, or a table
  rendered by \<^verbatim>\<open>tablewriter\<close> (kept as header and rows).
\<close>

datatype chunk =
    LogEntry Level "(string \<times> string) list" message
  | Payload bytes
  | TableOut "string list" "string list list"

datatype api_call =
    GetReplicationStatusReq string string string
  | UpdateExtensionReq bytes
  | WaitForOperationReq string

datatype event =
    Writes stream chunk
  | ReadsFile string
  | CreatesClient string string bytes
  | Calls api_call

type_synonym 'a prog = "event list \<times> (nat + 'a)"

definition return :: "'a \<Rightarrow> 'a prog" where
  "return x = ([], Inr x)"

definition bind :: "'a prog \<Rightarrow> ('a \<Rightarrow> 'b prog) \<Rightarrow> 'b prog" where
  "bind m f =
     (case m of
        (es, Inl code) \<Rightarrow> (es, Inl code)
      | (es, Inr x) \<Rightarrow> (case f x of (es', r) \<Rightarrow> (es @ es', r)))"

definition effect :: "event \<Rightarrow> 'a \<Rightarrow> 'a prog" where
  "effect e x = ([e], Inr x)"

section \<open>The remote client and the outside world\<close>

text \<open>
  Modelled from the spec: \<^verbatim>\<open>ReplicationStatusResponse\<close> is declared outside the three source
  files (the spec calls the entities a mirror of the remote resource model); the fields
  are those the commands read: \<^verbatim>\<open>r.Statuses\<close>, \<^verbatim>\<open>s.Location\<close>, \<^verbatim>\<open>s.Status\<close>.
\<close>

record ReplicationStatus =
  Location :: string
  Status :: string

record ReplicationStatusResponse =
  Statuses :: "ReplicationStatus list"

text \<open>
  Modelled from the spec: \<^verbatim>\<open>ExtensionsClient\<close> and \<^verbatim>\<open>NewClient\<close> are declared outside the
  three source files. The client is the record of the three methods the commands call;
  what each returns is a parameter.
\<close>

record ExtensionsClient =
  GetReplicationStatus :: "string \<Rightarrow> string \<Rightarrow> string \<Rightarrow> error + ReplicationStatusResponse"
  UpdateExtension :: "bytes \<Rightarrow> error + string"
  WaitForOperation :: "string \<Rightarrow> error option"

record Block =
  Type :: string
  Headers :: "(string \<times> string) list"
  Bytes :: bytes

text \<open>
  The file system and the library functions whose results the commands only pass on:
  \<^verbatim>\<open>ioutil.ReadFile\<close>, \<^verbatim>\<open>pem.Decode\<close> (its first result), \<^verbatim>\<open>pkcs12.ToPEM\<close>,
  \<^verbatim>\<open>pem.EncodeToMemory\<close>, \<^verbatim>\<open>NewClient\<close> and \<^verbatim>\<open>json.MarshalIndent\<close>.
\<close>

record env =
  ReadFile :: "string \<Rightarrow> error + bytes"
  pem_Decode :: "bytes \<Rightarrow> Block option"
  pkcs12_ToPEM :: "bytes \<Rightarrow> string \<Rightarrow> error + Block list"
  pem_EncodeToMemory :: "Block \<Rightarrow> bytes"
  NewClient :: "string \<Rightarrow> string \<Rightarrow> bytes \<Rightarrow> error + ExtensionsClient"
  json_MarshalIndent :: "ReplicationStatus list \<Rightarrow> string \<Rightarrow> string \<Rightarrow> error + bytes"

text \<open>\<^verbatim>\<open>cli.Context\<close>: the parsed flags; \<^verbatim>\<open>c.String\<close> of a flag that was not given is empty.\<close>

record Context =
  String :: "string \<Rightarrow> string"
  Bool :: "string \<Rightarrow> bool"

section \<open>main.go\<close>

subsection \<open>The logger\<close>

record Logger =
  Out :: stream
  LogLevel :: Level

definition SetLevel :: "Level \<Rightarrow> Logger \<Rightarrow> Logger" where
  "SetLevel l lg = lg\<lparr>LogLevel := l\<rparr>"

definition SetOutput :: "stream \<Rightarrow> Logger \<Rightarrow> Logger" where
  "SetOutput s lg = lg\<lparr>Out := s\<rparr>"

definition init :: "Logger \<Rightarrow> Logger" where
  "init lg = SetOutput Stderr (SetLevel DebugLevel lg)"

text \<open>An entry is written when the logger's level admits it, to the logger's output.\<close>

definition log_write :: "Logger \<Rightarrow> Level \<Rightarrow> (string \<times> string) list \<Rightarrow> message \<Rightarrow> event list" where
  "log_write lg l fs m =
     (if level_rank l \<le> level_rank (LogLevel lg) then [Writes (Out lg) (LogEntry l fs m)] else [])"

definition WithField :: "string \<Rightarrow> string \<Rightarrow> (string \<times> string) list" where
  "WithField k v = [(k, v)]"

definition entry_Info :: "Logger \<Rightarrow> (string \<times> string) list \<Rightarrow> string \<Rightarrow> unit prog" where
  "entry_Info lg fs s = (log_write lg InfoLevel fs (Sprint [ArgString s]), Inr ())"

definition entry_Fatalf :: "Logger \<Rightarrow> (string \<times> string) list \<Rightarrow> string \<Rightarrow> arg list \<Rightarrow> 'a prog" where
  "entry_Fatalf lg fs fmt args = (log_write lg FatalLevel fs (Sprintf fmt args), Inl 1)"

definition Debug :: "Logger \<Rightarrow> string \<Rightarrow> unit prog" where
  "Debug lg s = (log_write lg DebugLevel [] (Sprint [ArgString s]), Inr ())"

definition Fatalf :: "Logger \<Rightarrow> string \<Rightarrow> arg list \<Rightarrow> 'a prog" where
  "Fatalf lg fmt args = entry_Fatalf lg [] fmt args"

definition Fatal :: "Logger \<Rightarrow> arg list \<Rightarrow> 'a prog" where
  "Fatal lg args = (log_write lg FatalLevel [] (Sprint args), Inl 1)"

subsection \<open>Common CLI flags\<close>

text \<open>Of a flag declaration the commands use the name; its value comes from the context.\<close>

datatype Flag = StringFlag (FlagName: string) | BoolFlag (FlagName: string)

definition flMgtURL :: Flag where "flMgtURL = StringFlag ''management-url''"
definition flSubsID :: Flag where "flSubsID = StringFlag ''subscription-id''"
definition flSubsCert :: Flag where "flSubsCert = StringFlag ''subscription-cert''"
definition flVersion :: Flag where "flVersion = StringFlag ''version''"
definition flNamespace :: Flag where "flNamespace = StringFlag ''namespace''"
definition flName :: Flag where "flName = StringFlag ''name''"
definition flJSON :: Flag where "flJSON = BoolFlag ''json''"
definition flIsXMLExtension :: Flag where "flIsXMLExtension = BoolFlag ''is-xml-extension''"

subsection \<open>readCert, mkClient, checkFlag\<close>

definition readCert :: "env \<Rightarrow> string \<Rightarrow> (error + bytes) prog" where
  "readCert ev certFile =
     bind (effect (ReadsFile certFile) (ReadFile ev certFile)) (\<lambda>r.
       case r of
         Inl err \<Rightarrow> return (Inl err)
       | Inr b \<Rightarrow>
           (case pem_Decode ev b of
              Some p \<Rightarrow> return (Inr b)
            | None \<Rightarrow>
                (case pkcs12_ToPEM ev b [] of
                   Inl err \<Rightarrow> return (Inl err)
                 | Inr pemBlocks \<Rightarrow>
                     return (Inr (foldl (\<lambda>buf x. buf @ pem_EncodeToMemory ev x) [] pemBlocks)))))"

definition mkClient :: "env \<Rightarrow> Logger \<Rightarrow> string \<Rightarrow> string \<Rightarrow> string \<Rightarrow> ExtensionsClient prog" where
  "mkClient ev lg mgtURL subscriptionID certFile =
     bind (readCert ev certFile) (\<lambda>r.
       case r of
         Inl err \<Rightarrow> Fatalf lg ''Cannot read certificate %s: %v'' [ArgString certFile, ArgError err]
       | Inr b \<Rightarrow>
           bind (effect (CreatesClient mgtURL subscriptionID b) (NewClient ev mgtURL subscriptionID b)) (\<lambda>r.
             case r of
               Inl err \<Rightarrow> Fatalf lg ''Cannot create client: %v'' [ArgError err]
             | Inr cl \<Rightarrow> return cl))"

definition checkFlag :: "Logger \<Rightarrow> Context \<Rightarrow> string \<Rightarrow> string prog" where
  "checkFlag lg c fl =
     (let v = String c fl in
      if v = [] then Fatalf lg ''argument %q must be provided'' [ArgString fl]
      else return v)"

section \<open>text/template, as far as the manifest uses it\<close>

text \<open>
  The library is not part of the repository. The model covers templates made of literal
  text and field actions \<^verbatim>\<open>{{.Field}}\<close>, which is all \<^verbatim>\<open>unpublishVersion\<close> writes; any
  other action is refused with a parse error. Executing a field action writes the field's
  string as it is: \<^verbatim>\<open>text/template\<close> does no escaping.
\<close>

datatype node = TextNode string | FieldNode string

datatype tmode = TText | TLeft | TAction | TRight

definition ident_start :: "char \<Rightarrow> bool" where
  "ident_start c = (c \<in> set ''abcdefghijklmnopqrstuvwxyzABCDEFGHIJKLMNOPQRSTUVWXYZ_'')"

definition ident_char :: "char \<Rightarrow> bool" where
  "ident_char c = (ident_start c \<or> c \<in> set ''0123456789'')"

definition trim_spaces :: "string \<Rightarrow> string" where
  "trim_spaces s = rev (dropWhile (\<lambda>c. c = CHR '' '') (rev (dropWhile (\<lambda>c. c = CHR '' '') s)))"

definition parse_action :: "string \<Rightarrow> error + node" where
  "parse_action a =
     (case trim_spaces a of
        d # i # ident \<Rightarrow>
          if d = CHR ''.'' \<and> ident_start i \<and> list_all ident_char ident
          then Inr (FieldNode (i # ident))
          else Inl (ErrorNew ''unsupported action'')
      | _ \<Rightarrow> Inl (ErrorNew ''unsupported action''))"

definition flush_text :: "string \<Rightarrow> node list \<Rightarrow> node list" where
  "flush_text acc out = (if acc = [] then out else TextNode (rev acc) # out)"

text \<open>
  The lexer reads one character at a time; \<open>acc\<close> is the current text or action, reversed,
  and \<open>out\<close> the nodes so far, reversed.
\<close>

fun lex :: "tmode \<Rightarrow> string \<Rightarrow> node list \<Rightarrow> string \<Rightarrow> error + node list" where
  "lex m acc out [] =
     (case m of
        TText \<Rightarrow> Inr (rev (flush_text acc out))
      | TLeft \<Rightarrow> Inr (rev (flush_text (CHR ''{'' # acc) out))
      | TAction \<Rightarrow> Inl (ErrorNew ''unclosed action'')
      | TRight \<Rightarrow> Inl (ErrorNew ''unclosed action''))"
| "lex m acc out (c # cs) =
     (case m of
        TText \<Rightarrow>
          if c = CHR ''{'' then lex TLeft acc out cs else lex TText (c # acc) out cs
      | TLeft \<Rightarrow>
          if c = CHR ''{'' then lex TAction [] (flush_text acc out) cs
          else lex TText (c # CHR ''{'' # acc) out cs
      | TAction \<Rightarrow>
          if c = CHR ''}'' then lex TRight acc out cs else lex TAction (c # acc) out cs
      | TRight \<Rightarrow>
          if c = CHR ''}'' then
            (case parse_action (rev acc) of
               Inl err \<Rightarrow> Inl err
             | Inr n \<Rightarrow> lex TText [] (n # out) cs)
          else lex TAction (c # CHR ''}'' # acc) out cs)"

definition template_Parse :: "string \<Rightarrow> error + node list" where
  "template_Parse s = lex TText [] [] s"

fun exec :: "node list \<Rightarrow> (string \<Rightarrow> string option) \<Rightarrow> bytes \<Rightarrow> error + bytes" where
  "exec [] data b = Inr b"
| "exec (TextNode t # ns) data b = exec ns data (b @ t)"
| "exec (FieldNode f # ns) data b =
     (case data f of
        None \<Rightarrow> Inl (ErrorNew ''can't evaluate field'')
      | Some v \<Rightarrow> exec ns data (b @ v))"

section \<open>unpublish.go\<close>

record params =
  Namespace :: string
  Name :: string
  Version :: string

text \<open>The fields of \<open>p\<close> as the template engine finds them, by name.\<close>

definition field :: "params \<Rightarrow> string \<Rightarrow> string option" where
  "field p f =
     (if f = ''Namespace'' then Some (Namespace p)
      else if f = ''Name'' then Some (Name p)
      else if f = ''Version'' then Some (Version p)
      else None)"

definition template_Execute :: "node list \<Rightarrow> params \<Rightarrow> error + bytes" where
  "template_Execute tpl p = exec tpl (field p) []"

text \<open>The template text that \<^verbatim>\<open>unpublishVersion\<close> collects in \<^verbatim>\<open>buf\<close>.\<close>

definition unregisterManifest :: "bool \<Rightarrow> string" where
  \<open>unregisterManifest isXMLExtension =
     (let buf = ''<?xml version="1.0" encoding="utf-8" ?>\<newline><ExtensionImage xmlns="http://schemas.microsoft.com/windowsazure"  xmlns:i="http://www.w3.org/2001/XMLSchema-instance">\<newline>  <!-- WARNING: Ordering of fields matter in this file. -->\<newline>  <ProviderNameSpace>{{.Namespace}}</ProviderNameSpace>\<newline>  <Type>{{.Name}}</Type>\<newline>  <Version>{{.Version}}</Version>\<newline>  <IsInternalExtension>true</IsInternalExtension>\<newline>'';
          buf = (if \<not> isXMLExtension then buf @ ''<IsJsonExtension>true</IsJsonExtension>'' else buf)
      in buf @ ''</ExtensionImage>'')\<close>

definition unpublishVersion :: "env \<Rightarrow> Logger \<Rightarrow> Context \<Rightarrow> unit prog" where
  "unpublishVersion ev lg c =
     bind (checkFlag lg c (FlagName flNamespace)) (\<lambda>ns.
     bind (checkFlag lg c (FlagName flName)) (\<lambda>name.
     bind (checkFlag lg c (FlagName flVersion)) (\<lambda>version.
       let p = \<lparr>Namespace = ns, Name = name, Version = version\<rparr>;
           isXMLExtension = Bool c (FlagName flIsXMLExtension)
       in
       case template_Parse (unregisterManifest isXMLExtension) of
         Inl err \<Rightarrow> Fatalf lg ''template parse error: %v'' [ArgError err]
       | Inr tpl \<Rightarrow>
       (case template_Execute tpl p of
         Inl err \<Rightarrow> Fatalf lg ''template execute error: %v'' [ArgError err]
       | Inr b \<Rightarrow>
       bind (checkFlag lg c (FlagName flMgtURL)) (\<lambda>mgtURL.
       bind (checkFlag lg c (FlagName flSubsID)) (\<lambda>subscriptionID.
       bind (checkFlag lg c (FlagName flSubsCert)) (\<lambda>certFile.
       bind (mkClient ev lg mgtURL subscriptionID certFile) (\<lambda>cl.
       bind (effect (Calls (UpdateExtensionReq b)) (UpdateExtension cl b)) (\<lambda>r.
         case r of
           Inl err \<Rightarrow> Fatalf lg ''UpdateExtension failed: %v'' [ArgError err]
         | Inr op \<Rightarrow>
             (let lgf = WithField ''x-ms-operation-id'' op in
              bind (entry_Info lg lgf ''UpdateExtension operation started.'') (\<lambda>_.
              bind (effect (Calls (WaitForOperationReq op)) (WaitForOperation cl op)) (\<lambda>r.
                case r of
                  Some err \<Rightarrow> entry_Fatalf lg lgf ''UpdateExtension failed: %v'' [ArgError err]
                | None \<Rightarrow> entry_Info lg lgf ''UpdateExtension operation finished.''))))))))))))"

section \<open>replicationstatus.go\<close>

text \<open>\<^verbatim>\<open>tablewriter\<close>: a table collects a header and rows and is rendered to its writer.\<close>

record Table =
  tbl_out :: stream
  tbl_headers :: "string list"
  tbl_rows :: "string list list"

definition NewWriter :: "stream \<Rightarrow> Table" where
  "NewWriter s = \<lparr>tbl_out = s, tbl_headers = [], tbl_rows = []\<rparr>"

definition SetHeader :: "string list \<Rightarrow> Table \<Rightarrow> Table" where
  "SetHeader h t = t\<lparr>tbl_headers := h\<rparr>"

definition AppendBulk :: "string list list \<Rightarrow> Table \<Rightarrow> Table" where
  "AppendBulk rs t = t\<lparr>tbl_rows := tbl_rows t @ rs\<rparr>"

definition Render :: "Table \<Rightarrow> unit prog" where
  "Render t = effect (Writes (tbl_out t) (TableOut (tbl_headers t) (tbl_rows t))) ()"

definition printAsJSON :: "env \<Rightarrow> ReplicationStatusResponse \<Rightarrow> error option prog" where
  "printAsJSON ev r =
     (case json_MarshalIndent ev (Statuses r) [] ''  '' of
        Inl err \<Rightarrow> return (Some (Errorf ''failed to format as json: %+v'' err))
      | Inr b \<Rightarrow> bind (effect (Writes Stdout (Payload b)) ()) (\<lambda>_. return None))"

definition printAsTable :: "ReplicationStatusResponse \<Rightarrow> error option prog" where
  "printAsTable r =
     (let table = NewWriter Stdout;
          table = SetHeader [''Location'', ''Status''] table;
          data = foldl (\<lambda>data s. data @ [[Location s, Status s]]) [] (Statuses r);
          table = AppendBulk data table
      in bind (Render table) (\<lambda>_. return None))"

definition replicationStatus :: "env \<Rightarrow> Logger \<Rightarrow> Context \<Rightarrow> unit prog" where
  "replicationStatus ev lg c =
     bind (checkFlag lg c (FlagName flMgtURL)) (\<lambda>mgtURL.
     bind (checkFlag lg c (FlagName flSubsID)) (\<lambda>subscriptionID.
     bind (checkFlag lg c (FlagName flSubsCert)) (\<lambda>certFile.
     bind (mkClient ev lg mgtURL subscriptionID certFile) (\<lambda>cl.
     bind (checkFlag lg c (FlagName flNamespace)) (\<lambda>ns.
     bind (checkFlag lg c (FlagName flName)) (\<lambda>name.
     bind (checkFlag lg c (FlagName flVersion)) (\<lambda>version.
       let json = Bool c (FlagName flJSON) in
       bind (Debug lg ''Requesting replication status.'') (\<lambda>_.
       bind (effect (Calls (GetReplicationStatusReq ns name version))
               (GetReplicationStatus cl ns name version)) (\<lambda>r.
         case r of
           Inl err \<Rightarrow> Fatalf lg ''Cannot fetch replication status: %v'' [ArgError err]
         | Inr rs \<Rightarrow>
             (let f = (if json then printAsJSON ev else printAsTable) in
              bind (f rs) (\<lambda>r.
                case r of
                  Some err \<Rightarrow> Fatal lg [ArgError err]
                | None \<Rightarrow> return ())))))))))))"

section \<open>Reading a manifest back\<close>

text \<open>
  What the request body means to its reader is stated against a reader for a part of XML 1.0
  that holds the manifest: ASCII documents made of an optional XML declaration, comments,
  start tags with attributes, end tags and character data. The reader is strict where it
  reads and refuses everything else: a document it accepts is well-formed XML and is read
  as an XML processor reads it. Refused as outside that part are references (\<open>&\<close>),
  empty-element tags, CDATA sections, processing instructions, document type declarations,
  bytes above \<open>0x7E\<close> (multi-byte characters) and the carriage return (which a processor
  would turn into a line feed). Refused as not well-formed are control characters, \<open><\<close>
  in character data or attribute values, \<open>]]>\<close> in character data, \<open>--\<close> inside a
  comment, malformed names, attributes or declarations, repeated attributes, mismatched or
  unclosed tags, and anything but comments and white space outside the one root element.
  The scanner is a fold of a one-character step over the bytes.
\<close>

definition xml_char :: "char \<Rightarrow> bool" where
  "xml_char c =
     (c = CHR 0x09 \<or> c = CHR 0x0A \<or> (0x20 \<le> (of_char c :: nat) \<and> (of_char c :: nat) \<le> 0x7E))"

definition xml_space :: "char \<Rightarrow> bool" where
  "xml_space c = (c = CHR '' '' \<or> c = CHR 0x09 \<or> c = CHR 0x0A)"

definition name_start :: "char \<Rightarrow> bool" where
  "name_start c = (ident_start c \<or> c = CHR '':'')"

definition name_char :: "char \<Rightarrow> bool" where
  "name_char c = (ident_char c \<or> c = CHR '':'' \<or> c = CHR ''-'' \<or> c = CHR ''.'')"

datatype xml_token =
    TokDecl string
  | TokComment string
  | TokStart string
  | TokEnd string
  | TokText string

datatype xmode =
    XText | XLt | XDecl | XDeclQ | XBang | XBang2
  | XComment0 | XComment1 | XComment2
  | XStart | XQuote char | XEnd | XFailed

type_synonym scanner = "xmode \<times> string \<times> xml_token list"

definition flush_chars :: "string \<Rightarrow> xml_token list \<Rightarrow> xml_token list" where
  "flush_chars acc ts = (if acc = [] then ts else TokText (rev acc) # ts)"

text \<open>
  \<open>acc\<close> holds the characters of the token being read, last first; in character data a
  \<open>>\<close> that follows \<open>]]\<close> is refused.
\<close>

fun xml_step :: "scanner \<Rightarrow> char \<Rightarrow> scanner" where
  "xml_step (m, acc, ts) c =
     (if \<not> xml_char c then (XFailed, [], ts)
      else case m of
        XText \<Rightarrow>
          if c = CHR ''<'' then (XLt, [], flush_chars acc ts)
          else if c = CHR ''&'' then (XFailed, [], ts)
          else if c = CHR ''>'' \<and> take 2 acc = '']]'' then (XFailed, [], ts)
          else (XText, c # acc, ts)
      | XLt \<Rightarrow>
          if c = CHR ''?'' then (XDecl, [], ts)
          else if c = CHR ''!'' then (XBang, [], ts)
          else if c = CHR ''/'' then (XEnd, [], ts)
          else if name_start c then (XStart, [c], ts)
          else (XFailed, [], ts)
      | XDecl \<Rightarrow>
          if c = CHR ''?'' then (XDeclQ, acc, ts) else (XDecl, c # acc, ts)
      | XDeclQ \<Rightarrow>
          if c = CHR ''>'' then (XText, [], TokDecl (rev acc) # ts)
          else if c = CHR ''?'' then (XDeclQ, CHR ''?'' # acc, ts)
          else (XDecl, c # CHR ''?'' # acc, ts)
      | XBang \<Rightarrow> if c = CHR ''-'' then (XBang2, [], ts) else (XFailed, [], ts)
      | XBang2 \<Rightarrow> if c = CHR ''-'' then (XComment0, [], ts) else (XFailed, [], ts)
      | XComment0 \<Rightarrow>
          if c = CHR ''-'' then (XComment1, acc, ts) else (XComment0, c # acc, ts)
      | XComment1 \<Rightarrow>
          if c = CHR ''-'' then (XComment2, acc, ts) else (XComment0, c # CHR ''-'' # acc, ts)
      | XComment2 \<Rightarrow>
          if c = CHR ''>'' then (XText, [], TokComment (rev acc) # ts) else (XFailed, [], ts)
      | XStart \<Rightarrow>
          if c = CHR ''>'' then (XText, [], TokStart (rev acc) # ts)
          else if c = CHR ''<'' \<or> c = CHR ''/'' then (XFailed, [], ts)
          else if c = CHR 0x22 \<or> c = CHR 0x27 then (XQuote c, c # acc, ts)
          else (XStart, c # acc, ts)
      | XQuote q \<Rightarrow>
          if c = q then (XStart, c # acc, ts)
          else if c = CHR ''<'' \<or> c = CHR ''&'' then (XFailed, [], ts)
          else (XQuote q, c # acc, ts)
      | XEnd \<Rightarrow>
          if c = CHR ''>'' then (XText, [], TokEnd (rev acc) # ts)
          else if c = CHR ''<'' then (XFailed, [], ts)
          else (XEnd, c # acc, ts)
      | XFailed \<Rightarrow> (XFailed, [], ts))"

definition xml_tokens :: "string \<Rightarrow> xml_token list option" where
  "xml_tokens s =
     (case foldl xml_step (XText, [], []) s of
        (XText, acc, ts) \<Rightarrow> Some (rev (flush_chars acc ts))
      | _ \<Rightarrow> None)"

subsection \<open>Names and attributes\<close>

definition name_ok :: "string \<Rightarrow> bool" where
  "name_ok n = (case n of [] \<Rightarrow> False | c # cs \<Rightarrow> name_start c \<and> list_all name_char cs)"

datatype amode = ABetween | ASpace | AName | AEq | AQuote | AValue char

text \<open>
  The attributes of a tag, read from the text after its name: each is preceded by white
  space and has the form \<open>name = "value"\<close> or \<open>name = 'value'\<close>; white space in a
  value is read as a space. \<open>n\<close> and \<open>v\<close> hold the name and value being read, last
  character first.
\<close>

fun attrs :: "amode \<Rightarrow> string \<Rightarrow> string \<Rightarrow> (string \<times> string) list \<Rightarrow> string \<Rightarrow> (string \<times> string) list option" where
  "attrs m n v out [] = (if m = ABetween \<or> m = ASpace then Some (rev out) else None)"
| "attrs m n v out (c # cs) =
     (case m of
        ABetween \<Rightarrow> if xml_space c then attrs ASpace [] [] out cs else None
      | ASpace \<Rightarrow>
          if xml_space c then attrs ASpace [] [] out cs
          else if name_start c then attrs AName [c] [] out cs
          else None
      | AName \<Rightarrow>
          if name_char c then attrs AName (c # n) [] out cs
          else if c = CHR ''='' then attrs AQuote n [] out cs
          else if xml_space c then attrs AEq n [] out cs
          else None
      | AEq \<Rightarrow>
          if xml_space c then attrs AEq n [] out cs
          else if c = CHR ''='' then attrs AQuote n [] out cs
          else None
      | AQuote \<Rightarrow>
          if xml_space c then attrs AQuote n [] out cs
          else if c = CHR 0x22 \<or> c = CHR 0x27 then attrs (AValue c) n [] out cs
          else None
      | AValue q \<Rightarrow>
          if c = q then attrs ABetween [] [] ((rev n, rev v) # out) cs
          else if c = CHR ''<'' \<or> c = CHR ''&'' then None
          else attrs (AValue q) n ((if xml_space c then CHR '' '' else c) # v) out cs)"

definition start_tag :: "string \<Rightarrow> (string \<times> (string \<times> string) list) option" where
  "start_tag tag =
     (let n = takeWhile name_char tag in
      if \<not> name_ok n then None
      else case attrs ABetween [] [] [] (dropWhile name_char tag) of
             None \<Rightarrow> None
           | Some as \<Rightarrow> if distinct (map fst as) then Some (n, as) else None)"

definition end_tag :: "string \<Rightarrow> string option" where
  "end_tag tag =
     (let n = takeWhile name_char tag in
      if name_ok n \<and> list_all xml_space (dropWhile name_char tag) then Some n else None)"

subsection \<open>The XML declaration\<close>

definition version_ok :: "string \<Rightarrow> bool" where
  "version_ok v =
     (case v of
        a # b # d # ds \<Rightarrow>
          a = CHR ''1'' \<and> b = CHR ''.'' \<and> list_all (\<lambda>c. c \<in> set ''0123456789'') (d # ds)
      | _ \<Rightarrow> False)"

definition encoding_ok :: "string \<Rightarrow> bool" where
  "encoding_ok e = (e = ''utf-8'' \<or> e = ''UTF-8'')"

definition standalone_ok :: "string \<Rightarrow> bool" where
  "standalone_ok s = (s = ''yes'' \<or> s = ''no'')"

fun decl_rest_ok :: "(string \<times> string) list \<Rightarrow> bool" where
  "decl_rest_ok [] = True"
| "decl_rest_ok [(k, v)] =
     ((k = ''encoding'' \<and> encoding_ok v) \<or> (k = ''standalone'' \<and> standalone_ok v))"
| "decl_rest_ok [(k, v), (k', v')] =
     (k = ''encoding'' \<and> encoding_ok v \<and> k' = ''standalone'' \<and> standalone_ok v')"
| "decl_rest_ok (x # y # z # r) = False"

text \<open>
  The text between \<open><?\<close> and \<open>?>\<close> is a declaration when it reads \<open>xml\<close>, a version
  \<open>1.x\<close>, then at most an encoding (UTF-8, of which ASCII is a part) and a standalone mark.
\<close>

definition decl_ok :: "string \<Rightarrow> bool" where
  "decl_ok d =
     (case start_tag d of
        Some (n, (k, v) # rest) \<Rightarrow> n = ''xml'' \<and> k = ''version'' \<and> version_ok v \<and> decl_rest_ok rest
      | _ \<Rightarrow> False)"

subsection \<open>The document tree\<close>

text \<open>An element has a name, its attributes, and its children in order.\<close>

datatype xml = Element string "(string \<times> string) list" "xml list" | CharData string

type_synonym frame = "string \<times> (string \<times> string) list \<times> xml list"

text \<open>
  The tree is built with a stack of open elements (children reversed). End tags must match
  the innermost open element, there is exactly one root, and only comments and white space
  may stand outside it.
\<close>

fun build :: "frame list \<Rightarrow> xml option \<Rightarrow> xml_token list \<Rightarrow> xml option" where
  "build st root [] = (if st = [] then root else None)"
| "build st root (TokDecl d # ts) = None"
| "build st root (TokComment t # ts) = build st root ts"
| "build st root (TokText t # ts) =
     (case st of
        [] \<Rightarrow> if list_all xml_space t then build [] root ts else None
      | (n, a, cs) # st' \<Rightarrow> build ((n, a, CharData t # cs) # st') root ts)"
| "build st root (TokStart tag # ts) =
     (if st = [] \<and> root \<noteq> None then None
      else case start_tag tag of
             None \<Rightarrow> None
           | Some (n, a) \<Rightarrow> build ((n, a, []) # st) root ts)"
| "build st root (TokEnd tag # ts) =
     (case st of
        [] \<Rightarrow> None
      | (n, a, cs) # st' \<Rightarrow>
          if end_tag tag \<noteq> Some n then None
          else
            (case st' of
               [] \<Rightarrow> build [] (Some (Element n a (rev cs))) ts
             | (n', a', cs') # st'' \<Rightarrow> build ((n', a', Element n a (rev cs) # cs') # st'') root ts))"

text \<open>A declaration may stand at the very start of the document, and nowhere else.\<close>

definition xml_parse :: "string \<Rightarrow> xml option" where
  "xml_parse s =
     (case xml_tokens s of
        None \<Rightarrow> None
      | Some (TokDecl d # ts) \<Rightarrow> if decl_ok d then build [] None ts else None
      | Some ts \<Rightarrow> build [] None ts)"

definition well_formed :: "string \<Rightarrow> bool" where
  "well_formed s = (xml_parse s \<noteq> None)"

primrec text_of :: "xml \<Rightarrow> string" where
  "text_of (CharData t) = t"
| "text_of (Element n a cs) = concat (map text_of cs)"

fun root_name :: "xml \<Rightarrow> string" where
  "root_name (Element n a cs) = n"
| "root_name (CharData t) = []"

fun element_of :: "xml \<Rightarrow> (string \<times> string) list" where
  "element_of (Element n a cs) = [(n, text_of (Element n a cs))]"
| "element_of (CharData t) = []"

text \<open>The child elements of an element, in document order, each with its text.\<close>

fun child_elements :: "xml \<Rightarrow> (string \<times> string) list" where
  "child_elements (Element n a cs) = concat (map element_of cs)"
| "child_elements (CharData t) = []"

section \<open>Observing a run\<close>

definition api_calls :: "event list \<Rightarrow> api_call list" where
  "api_calls es = concat (map (\<lambda>e. case e of Calls r \<Rightarrow> [r] | _ \<Rightarrow> []) es)"

definition request_bodies :: "event list \<Rightarrow> bytes list" where
  "request_bodies es =
     concat (map (\<lambda>e. case e of Calls (UpdateExtensionReq b) \<Rightarrow> [b] | _ \<Rightarrow> []) es)"

definition file_reads :: "event list \<Rightarrow> string list" where
  "file_reads es = concat (map (\<lambda>e. case e of ReadsFile f \<Rightarrow> [f] | _ \<Rightarrow> []) es)"

definition written_to :: "stream \<Rightarrow> event list \<Rightarrow> chunk list" where
  "written_to s es =
     concat (map (\<lambda>e. case e of Writes s' x \<Rightarrow> if s' = s then [x] else [] | _ \<Rightarrow> []) es)"

fun is_log :: "chunk \<Rightarrow> bool" where
  "is_log (LogEntry l fs m) = True"
| "is_log (Payload b) = False"
| "is_log (TableOut h rs) = False"

text \<open>The six string flags the two commands require.\<close>

definition flags_given :: "Context \<Rightarrow> bool" where
  "flags_given c =
     (String c (FlagName flMgtURL) \<noteq> [] \<and> String c (FlagName flSubsID) \<noteq> [] \<and>
      String c (FlagName flSubsCert) \<noteq> [] \<and> String c (FlagName flNamespace) \<noteq> [] \<and>
      String c (FlagName flName) \<noteq> [] \<and> String c (FlagName flVersion) \<noteq> [])"

text \<open>The first flag of a list, in checking order, whose value is empty.\<close>

definition first_missing :: "Context \<Rightarrow> string list \<Rightarrow> string option" where
  "first_missing c fls = find (\<lambda>fl. String c fl = []) fls"

text \<open>The client a command gets from \<^verbatim>\<open>mkClient\<close> with the flags of \<open>c\<close>.\<close>

definition client_of :: "env \<Rightarrow> Logger \<Rightarrow> Context \<Rightarrow> ExtensionsClient prog" where
  "client_of ev lg c =
     mkClient ev lg (String c (FlagName flMgtURL)) (String c (FlagName flSubsID))
       (String c (FlagName flSubsCert))"

text \<open>The fatal entry of \<^verbatim>\<open>checkFlag\<close> for a flag.\<close>

definition missing_flag :: "string \<Rightarrow> event" where
  "missing_flag fl =
     Writes Stderr (LogEntry FatalLevel [] (Sprintf ''argument %q must be provided'' [ArgString fl]))"

text \<open>
  A value that can stand in character data as it is and is read back unchanged: printable
  ASCII, tab and line feed, without \<open><\<close>, without \<open>&\<close> and without the sequence \<open>]]>\<close>.
\<close>

definition plain :: "string \<Rightarrow> bool" where
  "plain v =
     (list_all (\<lambda>c. xml_char c \<and> c \<noteq> CHR ''<'' \<and> c \<noteq> CHR ''&'') v \<and> \<not> sublist '']]>'' v)"

text \<open>The parts of the manifest around the three values, and the manifest with them filled in.\<close>

definition seg_head :: string where
  \<open>seg_head = ''<?xml version="1.0" encoding="utf-8" ?>\<newline><ExtensionImage xmlns="http://schemas.microsoft.com/windowsazure"  xmlns:i="http://www.w3.org/2001/XMLSchema-instance">\<newline>  <!-- WARNING: Ordering of fields matter in this file. -->\<newline>  <ProviderNameSpace>''\<close>

definition seg_type :: string where
  \<open>seg_type = ''</ProviderNameSpace>\<newline>  <Type>''\<close>

definition seg_version :: string where
  \<open>seg_version = ''</Type>\<newline>  <Version>''\<close>

definition seg_tail :: "bool \<Rightarrow> string" where
  \<open>seg_tail isXMLExtension =
     ''</Version>\<newline>  <IsInternalExtension>true</IsInternalExtension>\<newline>'' @
     (if isXMLExtension then [] else ''<IsJsonExtension>true</IsJsonExtension>'') @
     ''</ExtensionImage>''\<close>

definition manifest_nodes :: "bool \<Rightarrow> node list" where
  "manifest_nodes x =
     [TextNode seg_head, FieldNode ''Namespace'', TextNode seg_type, FieldNode ''Name'',
      TextNode seg_version, FieldNode ''Version'', TextNode (seg_tail x)]"

definition manifest_text :: "bool \<Rightarrow> string \<Rightarrow> string \<Rightarrow> string \<Rightarrow> string" where
  "manifest_text x ns name version =
     seg_head @ ns @ seg_type @ name @ seg_version @ version @ seg_tail x"

text \<open>The body \<^verbatim>\<open>unpublishVersion\<close> builds from the flags of \<open>c\<close>.\<close>

definition body_of :: "Context \<Rightarrow> bytes" where
  "body_of c =
     manifest_text (Bool c (FlagName flIsXMLExtension)) (String c (FlagName flNamespace))
       (String c (FlagName flName)) (String c (FlagName flVersion))"

section \<open>Example runs\<close>

definition example_statuses :: "ReplicationStatus list" where
  "example_statuses =
     [\<lparr>Location = ''West US'', Status = ''Completed''\<rparr>,
      \<lparr>Location = ''Japan East'', Status = ''InProgress''\<rparr>]"

definition example_client :: ExtensionsClient where
  "example_client =
     \<lparr>GetReplicationStatus = (\<lambda>ns name version. Inr \<lparr>Statuses = example_statuses\<rparr>),
      UpdateExtension = (\<lambda>b. Inr ''op-1''),
      WaitForOperation = (\<lambda>op. None)\<rparr>"

text \<open>A client whose service refuses every request, and one whose operation fails.\<close>

definition refusing_client :: ExtensionsClient where
  "refusing_client =
     \<lparr>GetReplicationStatus = (\<lambda>ns name version. Inl (ErrorNew ''403 Forbidden'')),
      UpdateExtension = (\<lambda>b. Inl (ErrorNew ''403 Forbidden'')),
      WaitForOperation = (\<lambda>op. Some (ErrorNew ''403 Forbidden''))\<rparr>"

definition stalling_client :: ExtensionsClient where
  "stalling_client =
     \<lparr>GetReplicationStatus = (\<lambda>ns name version. Inl (ErrorNew ''403 Forbidden'')),
      UpdateExtension = (\<lambda>b. Inr ''op-2''),
      WaitForOperation = (\<lambda>op. Some (ErrorNew ''operation failed''))\<rparr>"

definition example_block :: "string \<Rightarrow> Block" where
  "example_block t = \<lparr>Type = t, Headers = [], Bytes = ''0''\<rparr>"

text \<open>
  A world with a PEM certificate \<^verbatim>\<open>cert.pem\<close>, a PKCS#12 archive \<^verbatim>\<open>cert.pfx\<close> holding a
  certificate and a key, and a file \<^verbatim>\<open>notes.txt\<close> that is neither; the client it hands out
  is given.
\<close>

definition example_env :: "ExtensionsClient \<Rightarrow> env" where
  "example_env cl =
     \<lparr>ReadFile = (\<lambda>f. if f = ''cert.pem'' then Inr ''PEM''
                      else if f = ''cert.pfx'' then Inr ''PFX''
                      else if f = ''notes.txt'' then Inr ''hello''
                      else Inl (ErrorNew ''no such file'')),
      pem_Decode = (\<lambda>b. if b = ''PEM'' then Some (example_block ''CERTIFICATE'') else None),
      pkcs12_ToPEM = (\<lambda>b password.
         if b = ''PFX'' \<and> password = []
         then Inr [example_block ''CERTIFICATE'', example_block ''PRIVATE KEY'']
         else Inl (ErrorNew ''pkcs12: error reading P12 data'')),
      pem_EncodeToMemory = (\<lambda>x. ''['' @ Type x @ '']''),
      NewClient = (\<lambda>mgtURL subscriptionID b. Inr cl),
      json_MarshalIndent = (\<lambda>v p i. Inr (concat (map (\<lambda>s. Location s @ '':'' @ Status s @ '';'') v)))\<rparr>"

definition example_logger :: Logger where
  "example_logger = \<lparr>Out = Stderr, LogLevel = InfoLevel\<rparr>"

definition example_flags :: "string \<Rightarrow> string" where
  "example_flags fl =
     (if fl = ''management-url'' then ''https://management.core.windows.net''
      else if fl = ''subscription-id'' then ''sub-1''
      else if fl = ''subscription-cert'' then ''cert.pem''
      else if fl = ''namespace'' then ''Microsoft.Azure.Extensions''
      else if fl = ''name'' then ''FooExtension''
      else if fl = ''version'' then ''1.0.0''
      else [])"

definition example_ctx :: Context where
  "example_ctx = \<lparr>String = example_flags, Bool = (\<lambda>fl. False)\<rparr>"

definition example_ctx_json :: Context where
  "example_ctx_json = \<lparr>String = example_flags, Bool = (\<lambda>fl. fl = ''json'')\<rparr>"

text \<open>
  The same flags without \<^verbatim>\<open>--namespace\<close>, with a namespace that holds markup, and without
  \<^verbatim>\<open>--subscription-id\<close>.
\<close>

definition example_ctx_no_namespace :: Context where
  "example_ctx_no_namespace =
     \<lparr>String = (\<lambda>fl. if fl = ''namespace'' then [] else example_flags fl), Bool = (\<lambda>fl. False)\<rparr>"

definition example_ctx_markup :: Context where
  "example_ctx_markup =
     \<lparr>String = (\<lambda>fl. if fl = ''namespace'' then ''a<b'' else example_flags fl), Bool = (\<lambda>fl. False)\<rparr>"

definition example_ctx_no_subscription :: Context where
  "example_ctx_no_subscription =
     \<lparr>String = (\<lambda>fl. if fl = ''subscription-id'' then [] else example_flags fl),
      Bool = (\<lambda>fl. False)\<rparr>"

text \<open>The same flags with \<^verbatim>\<open>--is-xml-extension\<close> and a name that holds elements of its own.\<close>

definition example_ctx_injected :: Context where
  "example_ctx_injected =
     \<lparr>String = (\<lambda>fl. if fl = ''name''
                     then ''x</Type><IsJsonExtension>true</IsJsonExtension><Type>y''
                     else example_flags fl),
      Bool = (\<lambda>fl. fl = ''is-xml-extension'')\<rparr>"

section \<open>Sequencing lemmas\<close>

lemmas flag_defs =
  flMgtURL_def flSubsID_def flSubsCert_def flVersion_def flNamespace_def flName_def
  flJSON_def flIsXMLExtension_def

lemma bind_Inl [simp]: "bind (es, Inl n) f = (es, Inl n)"
  by (simp add: bind_def)

lemma bind_Inr [simp]: "bind (es, Inr x) f = (es @ fst (f x), snd (f x))"
  by (simp add: bind_def split: prod.splits)

lemma effect_eq [simp]: "effect e x = ([e], Inr x)"
  by (simp add: effect_def)

lemma return_eq [simp]: "return x = ([], Inr x)"
  by (simp add: return_def)

lemma log_write_init [simp]: "log_write (init lg) l fs m = [Writes Stderr (LogEntry l fs m)]"
  by (cases l) (simp_all add: log_write_def init_def SetOutput_def SetLevel_def)

lemma foldl_snoc_map: "foldl (\<lambda>acc x. acc @ [f x]) acc xs = acc @ map f xs"
  by (induction xs arbitrary: acc) simp_all

lemma foldl_append_concat: "foldl (\<lambda>buf x. buf @ f x) buf xs = buf @ concat (map f xs)"
  by (induction xs arbitrary: buf) simp_all

section \<open>The manifest template and the commands, step by step\<close>

lemma parse_manifest: "template_Parse (unregisterManifest x) = Inr (manifest_nodes x)"
  by (cases x)
    (simp_all add: template_Parse_def unregisterManifest_def flush_text_def parse_action_def
      trim_spaces_def ident_start_def ident_char_def manifest_nodes_def seg_head_def seg_type_def
      seg_version_def seg_tail_def)

lemma execute_manifest:
  "template_Execute (manifest_nodes x) \<lparr>Namespace = ns, Name = name, Version = version\<rparr>
     = Inr (manifest_text x ns name version)"
  by (simp add: template_Execute_def manifest_nodes_def field_def manifest_text_def)

lemma api_calls_simps [simp]:
  "api_calls [] = []"
  "api_calls (Calls r # es) = r # api_calls es"
  "api_calls (Writes s x # es) = api_calls es"
  "api_calls (ReadsFile f # es) = api_calls es"
  "api_calls (CreatesClient m i b # es) = api_calls es"
  "api_calls (es @ es') = api_calls es @ api_calls es'"
  by (simp_all add: api_calls_def)

lemma api_calls_log_write [simp]: "api_calls (log_write lg l fs m) = []"
  by (simp add: log_write_def)

lemma request_bodies_simps [simp]:
  "request_bodies [] = []"
  "request_bodies (Calls (UpdateExtensionReq b) # es) = b # request_bodies es"
  "request_bodies (Calls (WaitForOperationReq op) # es) = request_bodies es"
  "request_bodies (Calls (GetReplicationStatusReq ns n v) # es) = request_bodies es"
  "request_bodies (Writes s x # es) = request_bodies es"
  "request_bodies (ReadsFile f # es) = request_bodies es"
  "request_bodies (CreatesClient m i b # es) = request_bodies es"
  "request_bodies (es @ es') = request_bodies es @ request_bodies es'"
  by (simp_all add: request_bodies_def)

lemma request_bodies_log_write [simp]: "request_bodies (log_write lg l fs m) = []"
  by (simp add: log_write_def)

lemma written_to_simps [simp]:
  "written_to s [] = []"
  "written_to s (Writes s' x # es) = (if s' = s then x # written_to s es else written_to s es)"
  "written_to s (Calls r # es) = written_to s es"
  "written_to s (ReadsFile f # es) = written_to s es"
  "written_to s (CreatesClient m i b # es) = written_to s es"
  "written_to s (es @ es') = written_to s es @ written_to s es'"
  by (simp_all add: written_to_def)

lemma checkFlag_given: "String c fl \<noteq> [] \<Longrightarrow> checkFlag lg c fl = ([], Inr (String c fl))"
  by (simp add: checkFlag_def)

lemma checkFlag_empty:
  "String c fl = [] \<Longrightarrow>
   checkFlag lg c fl
     = (log_write lg FatalLevel [] (Sprintf ''argument %q must be provided'' [ArgString fl]), Inl 1)"
  by (simp add: checkFlag_def Fatalf_def entry_Fatalf_def)

lemma mkClient_ok:
  "mkClient ev lg m i f = (es, Inr cl) \<Longrightarrow>
   \<exists>b. snd (readCert ev f) = Inr (Inr b) \<and> NewClient ev m i b = Inr cl \<and>
       es = [ReadsFile f, CreatesClient m i b]"
  by (auto simp: mkClient_def readCert_def Fatalf_def entry_Fatalf_def
      split: sum.splits option.splits)

lemma mkClient_exit:
  "mkClient ev lg m i f = (es, Inl n) \<Longrightarrow> n = 1 \<and> api_calls es = [] \<and> request_bodies es = []"
  by (auto simp: mkClient_def readCert_def Fatalf_def entry_Fatalf_def
      split: sum.splits option.splits)

lemma bind_pure: "bind ([], Inr x) f = f x"
  by (simp add: bind_def)

lemma unpublish_given:
  "flags_given c \<Longrightarrow>
   unpublishVersion ev lg c =
     bind (client_of ev lg c) (\<lambda>cl.
       bind (effect (Calls (UpdateExtensionReq (body_of c))) (UpdateExtension cl (body_of c))) (\<lambda>r.
         case r of
           Inl err \<Rightarrow> Fatalf lg ''UpdateExtension failed: %v'' [ArgError err]
         | Inr op \<Rightarrow>
             bind (entry_Info lg [(''x-ms-operation-id'', op)] ''UpdateExtension operation started.'') (\<lambda>_.
             bind (effect (Calls (WaitForOperationReq op)) (WaitForOperation cl op)) (\<lambda>r.
               case r of
                 Some err \<Rightarrow> entry_Fatalf lg [(''x-ms-operation-id'', op)] ''UpdateExtension failed: %v'' [ArgError err]
               | None \<Rightarrow> entry_Info lg [(''x-ms-operation-id'', op)] ''UpdateExtension operation finished.''))))"
  by (simp add: unpublishVersion_def flags_given_def checkFlag_given parse_manifest execute_manifest
      body_of_def client_of_def WithField_def bind_pure Let_def del: bind_Inr bind_Inl effect_eq)

lemma replication_given:
  "flags_given c \<Longrightarrow>
   replicationStatus ev lg c =
     bind (client_of ev lg c) (\<lambda>cl.
       bind (Debug lg ''Requesting replication status.'') (\<lambda>_.
       bind (effect (Calls (GetReplicationStatusReq (String c (FlagName flNamespace))
                 (String c (FlagName flName)) (String c (FlagName flVersion))))
               (GetReplicationStatus cl (String c (FlagName flNamespace))
                 (String c (FlagName flName)) (String c (FlagName flVersion)))) (\<lambda>r.
         case r of
           Inl err \<Rightarrow> Fatalf lg ''Cannot fetch replication status: %v'' [ArgError err]
         | Inr rs \<Rightarrow>
             bind ((if Bool c (FlagName flJSON) then printAsJSON ev else printAsTable) rs) (\<lambda>r.
               case r of
                 Some err \<Rightarrow> Fatal lg [ArgError err]
               | None \<Rightarrow> return ()))))"
  by (simp add: replicationStatus_def flags_given_def checkFlag_given client_of_def bind_pure
      del: bind_Inr bind_Inl effect_eq return_eq)

lemma file_reads_simps [simp]:
  "file_reads [] = []"
  "file_reads (ReadsFile f # es) = f # file_reads es"
  "file_reads (Calls r # es) = file_reads es"
  "file_reads (Writes s x # es) = file_reads es"
  "file_reads (CreatesClient m i b # es) = file_reads es"
  "file_reads (es @ es') = file_reads es @ file_reads es'"
  by (simp_all add: file_reads_def)

lemma client_of_ok:
  "client_of ev lg c = (es, Inr cl) \<Longrightarrow>
   \<exists>b. snd (readCert ev (String c (FlagName flSubsCert))) = Inr (Inr b) \<and>
       NewClient ev (String c (FlagName flMgtURL)) (String c (FlagName flSubsID)) b = Inr cl \<and>
       es = [ReadsFile (String c (FlagName flSubsCert)),
             CreatesClient (String c (FlagName flMgtURL)) (String c (FlagName flSubsID)) b]"
  unfolding client_of_def by (rule mkClient_ok)

lemma client_of_exit:
  "client_of ev lg c = (es, Inl n) \<Longrightarrow> n = 1 \<and> api_calls es = [] \<and> request_bodies es = []"
  unfolding client_of_def by (rule mkClient_exit)

lemma unpublish_not_given:
  "\<not> flags_given c \<Longrightarrow>
   api_calls (fst (unpublishVersion ev lg c)) = [] \<and> snd (unpublishVersion ev lg c) = Inl 1"
  by (auto simp: unpublishVersion_def flags_given_def checkFlag_def parse_manifest execute_manifest
      Fatalf_def entry_Fatalf_def Let_def)

lemma printAsTable_eq:
  "printAsTable r =
     ([Writes Stdout (TableOut [''Location'', ''Status'']
         (map (\<lambda>s. [Location s, Status s]) (Statuses r)))], Inr None)"
  by (simp add: printAsTable_def NewWriter_def SetHeader_def AppendBulk_def Render_def
      foldl_snoc_map Let_def)

lemma printAsJSON_eq:
  "printAsJSON ev r =
     (case json_MarshalIndent ev (Statuses r) [] ''  '' of
        Inl err \<Rightarrow> ([], Inr (Some (Errorf ''failed to format as json: %+v'' err)))
      | Inr b \<Rightarrow> ([Writes Stdout (Payload b)], Inr None))"
  by (simp add: printAsJSON_def split: sum.splits)

lemma unpublish_missing:
  "first_missing c [FlagName flNamespace, FlagName flName, FlagName flVersion,
      FlagName flMgtURL, FlagName flSubsID, FlagName flSubsCert] = Some fl \<Longrightarrow>
   unpublishVersion ev (init lg) c = ([missing_flag fl], Inl 1)"
  by (auto simp: first_missing_def unpublishVersion_def checkFlag_def parse_manifest
      execute_manifest Fatalf_def entry_Fatalf_def missing_flag_def Let_def split: if_splits)

lemma replication_missing_early:
  "first_missing c [FlagName flMgtURL, FlagName flSubsID, FlagName flSubsCert] = Some fl \<Longrightarrow>
   replicationStatus ev (init lg) c = ([missing_flag fl], Inl 1)"
  by (auto simp: first_missing_def replicationStatus_def checkFlag_def Fatalf_def entry_Fatalf_def
      missing_flag_def split: if_splits)

lemma replication_missing_late:
  "first_missing c [FlagName flMgtURL, FlagName flSubsID, FlagName flSubsCert] = None \<Longrightarrow>
   first_missing c [FlagName flNamespace, FlagName flName, FlagName flVersion] = Some fl \<Longrightarrow>
   client_of ev (init lg) c = (es, Inr cl) \<Longrightarrow>
   replicationStatus ev (init lg) c = (es @ [missing_flag fl], Inl 1)"
  by (auto simp: first_missing_def replicationStatus_def checkFlag_def Fatalf_def entry_Fatalf_def
      missing_flag_def client_of_def split: if_splits)

lemma unpublish_not_given_reads:
  "\<not> flags_given c \<Longrightarrow> file_reads (fst (unpublishVersion ev (init lg) c)) = []"
  by (auto simp: unpublishVersion_def flags_given_def checkFlag_def parse_manifest execute_manifest
      Fatalf_def entry_Fatalf_def Let_def)

lemma client_of_exit_init:
  "client_of ev (init lg) c = (es, Inl n) \<Longrightarrow>
   written_to Stdout es = [] \<and> list_all is_log (written_to Stderr es)"
  by (auto simp: client_of_def mkClient_def readCert_def Fatalf_def entry_Fatalf_def
      split: sum.splits option.splits)

lemma first_missing_cases:
  "first_missing c fls = None \<or> (\<exists>fl. first_missing c fls = Some fl)"
  by (cases "first_missing c fls") simp_all

lemma first_missing_None:
  "first_missing c fls = None \<longleftrightarrow> (\<forall>fl \<in> set fls. String c fl \<noteq> [])"
  by (auto simp: first_missing_def find_None_iff)

lemma replication_client_exit:
  "first_missing c [FlagName flMgtURL, FlagName flSubsID, FlagName flSubsCert] = None \<Longrightarrow>
   client_of ev lg c = (es, Inl n) \<Longrightarrow> replicationStatus ev lg c = (es, Inl n)"
  by (simp add: first_missing_None replicationStatus_def checkFlag_given client_of_def bind_pure)

lemma replication_not_given:
  assumes "\<not> flags_given c"
  shows "api_calls (fst (replicationStatus ev (init lg) c)) = [] \<and>
   snd (replicationStatus ev (init lg) c) = Inl 1 \<and>
   written_to Stdout (fst (replicationStatus ev (init lg) c)) = [] \<and>
   list_all is_log (written_to Stderr (fst (replicationStatus ev (init lg) c)))"
proof (cases "first_missing c [FlagName flMgtURL, FlagName flSubsID, FlagName flSubsCert]")
  case (Some fl)
  then show ?thesis
    by (simp add: replication_missing_early missing_flag_def)
next
  case None
  then obtain fl where
    fl: "first_missing c [FlagName flNamespace, FlagName flName, FlagName flVersion] = Some fl"
    using assms first_missing_cases [of c "[FlagName flNamespace, FlagName flName, FlagName flVersion]"]
    by (auto simp: first_missing_None flags_given_def)
  obtain es r where mk: "client_of ev (init lg) c = (es, r)"
    by (cases "client_of ev (init lg) c") blast
  show ?thesis
  proof (cases r)
    case (Inl n)
    then show ?thesis
      using None mk client_of_exit [of ev "init lg" c es n] client_of_exit_init [of ev lg c es n]
      by (simp add: replication_client_exit)
  next
    case (Inr cl)
    then show ?thesis
      using None fl mk client_of_ok [of ev "init lg" c es cl]
      by (auto simp: replication_missing_late missing_flag_def)
  qed
qed

lemma unpublish_not_given_writes:
  assumes "\<not> flags_given c"
  shows "written_to Stdout (fst (unpublishVersion ev (init lg) c)) = [] \<and>
   list_all is_log (written_to Stderr (fst (unpublishVersion ev (init lg) c)))"
proof -
  obtain fl where "first_missing c [FlagName flNamespace, FlagName flName, FlagName flVersion,
      FlagName flMgtURL, FlagName flSubsID, FlagName flSubsCert] = Some fl"
    using assms first_missing_cases [of c "[FlagName flNamespace, FlagName flName, FlagName flVersion,
      FlagName flMgtURL, FlagName flSubsID, FlagName flSubsCert]"]
    by (auto simp: first_missing_None flags_given_def)
  then show ?thesis
    by (simp add: unpublish_missing missing_flag_def)
qed

lemma unpublish_writes:
  "written_to Stdout (fst (unpublishVersion ev (init lg) c)) = [] \<and>
   list_all is_log (written_to Stderr (fst (unpublishVersion ev (init lg) c)))"
proof (cases "flags_given c")
  case False
  then show ?thesis by (rule unpublish_not_given_writes)
next
  case True
  obtain es r where mk: "client_of ev (init lg) c = (es, r)"
    by (cases "client_of ev (init lg) c") blast
  show ?thesis
  proof (cases r)
    case (Inl n)
    then show ?thesis
      using True mk client_of_exit_init [of ev lg c es n] by (simp add: unpublish_given)
  next
    case (Inr cl)
    then show ?thesis
      using True mk client_of_ok [of ev "init lg" c es cl]
      by (auto simp: unpublish_given Fatalf_def entry_Fatalf_def entry_Info_def
          split: sum.splits option.splits)
  qed
qed

lemma replication_writes:
  "list_all is_log (written_to Stderr (fst (replicationStatus ev (init lg) c))) \<and>
   (written_to Stdout (fst (replicationStatus ev (init lg) c)) = [] \<or>
    (\<exists>es cl rs b. client_of ev (init lg) c = (es, Inr cl) \<and>
       GetReplicationStatus cl (String c (FlagName flNamespace)) (String c (FlagName flName))
         (String c (FlagName flVersion)) = Inr rs \<and>
       Bool c (FlagName flJSON) \<and> json_MarshalIndent ev (Statuses rs) [] ''  '' = Inr b \<and>
       written_to Stdout (fst (replicationStatus ev (init lg) c)) = [Payload b]) \<or>
    (\<exists>es cl rs. client_of ev (init lg) c = (es, Inr cl) \<and>
       GetReplicationStatus cl (String c (FlagName flNamespace)) (String c (FlagName flName))
         (String c (FlagName flVersion)) = Inr rs \<and>
       \<not> Bool c (FlagName flJSON) \<and>
       written_to Stdout (fst (replicationStatus ev (init lg) c)) =
         [TableOut [''Location'', ''Status''] (map (\<lambda>s. [Location s, Status s]) (Statuses rs))]))"
proof (cases "flags_given c")
  case False
  then show ?thesis
    using replication_not_given [of c ev lg] by simp
next
  case True
  obtain es r where mk: "client_of ev (init lg) c = (es, r)"
    by (cases "client_of ev (init lg) c") blast
  show ?thesis
  proof (cases r)
    case (Inl n)
    then show ?thesis
      using True mk client_of_exit_init [of ev lg c es n] by (simp add: replication_given)
  next
    case (Inr cl)
    then show ?thesis
      using True mk client_of_ok [of ev "init lg" c es cl]
      by (auto simp: replication_given Debug_def Fatalf_def entry_Fatalf_def Fatal_def
          printAsJSON_eq printAsTable_eq split: sum.splits)
  qed
qed

lemma unpublish_client_exit:
  "flags_given c \<Longrightarrow> client_of ev lg c = (es, Inl n) \<Longrightarrow> unpublishVersion ev lg c = (es, Inl n)"
  by (simp add: unpublish_given)

lemma replication_client_exit_given:
  "flags_given c \<Longrightarrow> client_of ev lg c = (es, Inl n) \<Longrightarrow> replicationStatus ev lg c = (es, Inl n)"
  by (simp add: replication_given)

lemma calls_need_client:
  assumes "api_calls (fst (unpublishVersion ev (init lg) c)) \<noteq> [] \<or>
           api_calls (fst (replicationStatus ev (init lg) c)) \<noteq> []"
  shows "flags_given c \<and> (\<exists>es cl. client_of ev (init lg) c = (es, Inr cl))"
proof -
  have given: "flags_given c"
    using assms unpublish_not_given [of c ev "init lg"] replication_not_given [of c ev lg] by auto
  obtain es r where mk: "client_of ev (init lg) c = (es, r)"
    by (cases "client_of ev (init lg) c") blast
  have "\<exists>cl. r = Inr cl"
  proof (cases r)
    case (Inl n)
    then show ?thesis
      using assms given mk client_of_exit [of ev "init lg" c es n]
      by (simp add: unpublish_client_exit replication_client_exit_given)
  next
    case (Inr cl)
    then show ?thesis by simp
  qed
  with given mk show ?thesis by auto
qed

lemma unpublish_run_refused:
  "flags_given c \<Longrightarrow> client_of ev (init lg) c = (es, Inr cl) \<Longrightarrow>
   UpdateExtension cl (body_of c) = Inl err \<Longrightarrow>
   unpublishVersion ev (init lg) c =
     (es @
      [Calls (UpdateExtensionReq (body_of c)),
       Writes Stderr (LogEntry FatalLevel [] (Sprintf ''UpdateExtension failed: %v'' [ArgError err]))],
      Inl 1)"
  by (simp add: unpublish_given Fatalf_def entry_Fatalf_def)

lemma unpublish_run_started:
  "flags_given c \<Longrightarrow> client_of ev (init lg) c = (es, Inr cl) \<Longrightarrow>
   UpdateExtension cl (body_of c) = Inr op \<Longrightarrow>
   unpublishVersion ev (init lg) c =
     (es @
      [Calls (UpdateExtensionReq (body_of c)),
       Writes Stderr (LogEntry InfoLevel [(''x-ms-operation-id'', op)]
         (Sprint [ArgString ''UpdateExtension operation started.''])),
       Calls (WaitForOperationReq op),
       (case WaitForOperation cl op of
          None \<Rightarrow> Writes Stderr (LogEntry InfoLevel [(''x-ms-operation-id'', op)]
            (Sprint [ArgString ''UpdateExtension operation finished.'']))
        | Some err \<Rightarrow> Writes Stderr (LogEntry FatalLevel [(''x-ms-operation-id'', op)]
            (Sprintf ''UpdateExtension failed: %v'' [ArgError err])))],
      (case WaitForOperation cl op of None \<Rightarrow> Inr () | Some err \<Rightarrow> Inl 1))"
  by (simp add: unpublish_given entry_Info_def entry_Fatalf_def split: option.splits)

lemma replication_run_prefix:
  "flags_given c \<Longrightarrow> client_of ev (init lg) c = (es, Inr cl) \<Longrightarrow>
   \<exists>tl r. replicationStatus ev (init lg) c =
     (es @
      [Writes Stderr (LogEntry DebugLevel [] (Sprint [ArgString ''Requesting replication status.''])),
       Calls (GetReplicationStatusReq (String c (FlagName flNamespace))
         (String c (FlagName flName)) (String c (FlagName flVersion)))] @ tl, r) \<and>
     api_calls tl = []"
  by (auto simp: replication_given Debug_def Fatalf_def entry_Fatalf_def Fatal_def
      printAsJSON_eq printAsTable_eq split: sum.splits)

section \<open>Scanning the manifest\<close>

lemma cdata_end_here: "sublist '']]>'' (CHR '']'' # CHR '']'' # CHR ''>'' # v)"
  by (simp add: sublist_Cons_right)

lemma cdata_end_later: "sublist '']]>'' v \<Longrightarrow> sublist '']]>'' (a # v)"
  by (simp add: sublist_Cons_right)

lemma take_two_next:
  assumes "\<not> sublist '']]>'' (rev (take 2 acc) @ c # v)"
  shows "\<not> sublist '']]>'' (rev (take 2 (c # acc)) @ v)"
proof (cases acc)
  case Nil
  then show ?thesis using assms by simp
next
  case (Cons a as)
  then show ?thesis
    using assms by (cases as) (auto dest: cdata_end_later)
qed

lemma scan_text:
  "list_all (\<lambda>c. xml_char c \<and> c \<noteq> CHR ''<'' \<and> c \<noteq> CHR ''&'') v \<Longrightarrow>
   \<not> sublist '']]>'' (rev (take 2 acc) @ v) \<Longrightarrow>
   foldl xml_step (XText, acc, ts) v = (XText, rev v @ acc, ts)"
proof (induction v arbitrary: acc)
  case Nil
  then show ?case by simp
next
  case (Cons c v)
  have "\<not> (c = CHR ''>'' \<and> take 2 acc = '']]'')"
    using Cons.prems(2) cdata_end_here [of v] by auto
  moreover have "\<not> sublist '']]>'' (rev (take 2 (c # acc)) @ v)"
    using Cons.prems(2) by (rule take_two_next)
  ultimately show ?case
    using Cons.prems(1) Cons.IH [of "c # acc"] by auto
qed

lemma scan_plain: "plain v \<Longrightarrow> foldl xml_step (XText, [], ts) v = (XText, rev v, ts)"
  using scan_text [of v "[]" ts] by (simp add: plain_def)

lemma scan_head:
  \<open>foldl xml_step (XText, [], []) seg_head =
     (XText, [],
      [TokStart ''ProviderNameSpace'', TokText ''\<newline>  '',
       TokComment '' WARNING: Ordering of fields matter in this file. '', TokText ''\<newline>  '',
       TokStart
         ''ExtensionImage xmlns="http://schemas.microsoft.com/windowsazure"  xmlns:i="http://www.w3.org/2001/XMLSchema-instance"'',
       TokText ''\<newline>'', TokDecl ''xml version="1.0" encoding="utf-8" ''])\<close>
  by (simp add: seg_head_def flush_chars_def xml_char_def name_start_def ident_start_def)

lemma scan_type:
  \<open>foldl xml_step (XText, acc, ts) seg_type =
     (XText, [], TokStart ''Type'' # TokText ''\<newline>  '' # TokEnd ''ProviderNameSpace'' # flush_chars acc ts)\<close>
  by (simp add: seg_type_def flush_chars_def xml_char_def name_start_def ident_start_def)

lemma scan_version:
  \<open>foldl xml_step (XText, acc, ts) seg_version =
     (XText, [], TokStart ''Version'' # TokText ''\<newline>  '' # TokEnd ''Type'' # flush_chars acc ts)\<close>
  by (simp add: seg_version_def flush_chars_def xml_char_def name_start_def ident_start_def)

lemma scan_tail:
  \<open>foldl xml_step (XText, acc, ts) (seg_tail x) =
     (XText, [],
      TokEnd ''ExtensionImage'' #
      (if x then [] else [TokEnd ''IsJsonExtension'', TokText ''true'', TokStart ''IsJsonExtension'']) @
      [TokText ''\<newline>'', TokEnd ''IsInternalExtension'', TokText ''true'',
       TokStart ''IsInternalExtension'', TokText ''\<newline>  '', TokEnd ''Version''] @
      flush_chars acc ts)\<close>
  by (simp add: seg_tail_def flush_chars_def xml_char_def name_start_def ident_start_def)

lemmas name_defs =
  name_ok_def name_start_def name_char_def ident_start_def ident_char_def xml_space_def

lemma manifest_tags:
  "start_tag ''ProviderNameSpace'' = Some (''ProviderNameSpace'', [])"
  "start_tag ''Type'' = Some (''Type'', [])"
  "start_tag ''Version'' = Some (''Version'', [])"
  "start_tag ''IsInternalExtension'' = Some (''IsInternalExtension'', [])"
  "start_tag ''IsJsonExtension'' = Some (''IsJsonExtension'', [])"
  "end_tag ''ProviderNameSpace'' = Some ''ProviderNameSpace''"
  "end_tag ''Type'' = Some ''Type''"
  "end_tag ''Version'' = Some ''Version''"
  "end_tag ''IsInternalExtension'' = Some ''IsInternalExtension''"
  "end_tag ''IsJsonExtension'' = Some ''IsJsonExtension''"
  "end_tag ''ExtensionImage'' = Some ''ExtensionImage''"
  by (simp_all add: start_tag_def end_tag_def name_defs)

lemma manifest_root_tag:
  \<open>start_tag
     ''ExtensionImage xmlns="http://schemas.microsoft.com/windowsazure"  xmlns:i="http://www.w3.org/2001/XMLSchema-instance"'' =
   Some (''ExtensionImage'',
     [(''xmlns'', ''http://schemas.microsoft.com/windowsazure''),
      (''xmlns:i'', ''http://www.w3.org/2001/XMLSchema-instance'')])\<close>
  by (simp add: start_tag_def name_defs)

lemma manifest_decl: \<open>decl_ok ''xml version="1.0" encoding="utf-8" ''\<close>
  by (simp add: decl_ok_def start_tag_def name_defs version_ok_def encoding_ok_def)

lemma manifest_tokens:
  assumes "plain ns" and "plain name" and "plain version"
  shows \<open>xml_tokens (manifest_text x ns name version) =
     Some ([TokDecl ''xml version="1.0" encoding="utf-8" '', TokText ''\<newline>'',
            TokStart
              ''ExtensionImage xmlns="http://schemas.microsoft.com/windowsazure"  xmlns:i="http://www.w3.org/2001/XMLSchema-instance"'',
            TokText ''\<newline>  '',
            TokComment '' WARNING: Ordering of fields matter in this file. '', TokText ''\<newline>  '',
            TokStart ''ProviderNameSpace''] @
           (if ns = [] then [] else [TokText ns]) @
           [TokEnd ''ProviderNameSpace'', TokText ''\<newline>  '', TokStart ''Type''] @
           (if name = [] then [] else [TokText name]) @
           [TokEnd ''Type'', TokText ''\<newline>  '', TokStart ''Version''] @
           (if version = [] then [] else [TokText version]) @
           [TokEnd ''Version'', TokText ''\<newline>  '', TokStart ''IsInternalExtension'',
            TokText ''true'', TokEnd ''IsInternalExtension'', TokText ''\<newline>''] @
           (if x then [] else [TokStart ''IsJsonExtension'', TokText ''true'', TokEnd ''IsJsonExtension'']) @
           [TokEnd ''ExtensionImage''])\<close>
  using assms
  by (simp add: xml_tokens_def manifest_text_def scan_head scan_plain scan_type scan_version
      scan_tail flush_chars_def)

lemma manifest_parse:
  assumes "plain ns" and "plain name" and "plain version"
  shows "map_option root_name (xml_parse (manifest_text x ns name version)) = Some ''ExtensionImage'' \<and>
    map_option child_elements (xml_parse (manifest_text x ns name version)) =
      Some ([(''ProviderNameSpace'', ns), (''Type'', name), (''Version'', version),
             (''IsInternalExtension'', ''true'')] @
            (if x then [] else [(''IsJsonExtension'', ''true'')]))"
  unfolding xml_parse_def manifest_tokens [OF assms]
  by (cases "ns = []"; cases "name = []"; cases "version = []"; cases x)
    (simp_all add: manifest_tags manifest_root_tag manifest_decl xml_space_def)

lemma body_of_template:
  "template_Parse (unregisterManifest (Bool c (FlagName flIsXMLExtension)))
     = Inr (manifest_nodes (Bool c (FlagName flIsXMLExtension))) \<and>
   template_Execute (manifest_nodes (Bool c (FlagName flIsXMLExtension)))
     \<lparr>Namespace = String c (FlagName flNamespace), Name = String c (FlagName flName),
      Version = String c (FlagName flVersion)\<rparr> = Inr (body_of c)"
  by (simp add: parse_manifest execute_manifest body_of_def)

lemma unpublish_not_given_bodies:
  "\<not> flags_given c \<Longrightarrow> request_bodies (fst (unpublishVersion ev lg c)) = []"
  by (auto simp: unpublishVersion_def flags_given_def checkFlag_def parse_manifest execute_manifest
      Fatalf_def entry_Fatalf_def Let_def)

lemma unpublish_bodies:
  "request_bodies (fst (unpublishVersion ev lg c)) = [] \<or>
   request_bodies (fst (unpublishVersion ev lg c)) = [body_of c]"
proof (cases "flags_given c")
  case False
  then show ?thesis by (simp add: unpublish_not_given_bodies)
next
  case True
  obtain es r where mk: "client_of ev lg c = (es, r)"
    by (cases "client_of ev lg c") blast
  show ?thesis
  proof (cases r)
    case (Inl n)
    then show ?thesis
      using True mk client_of_exit [of ev lg c es n] by (simp add: unpublish_given)
  next
    case (Inr cl)
    then show ?thesis
      using True mk client_of_ok [of ev lg c es cl]
      by (auto simp: unpublish_given Fatalf_def entry_Fatalf_def entry_Info_def
          split: sum.splits option.splits)
  qed
qed

lemma unpublish_bodies_given:
  "flags_given c \<Longrightarrow> client_of ev lg c = (es, Inr cl) \<Longrightarrow>
   request_bodies (fst (unpublishVersion ev lg c)) = [body_of c]"
  using client_of_ok [of ev lg c es cl]
  by (auto simp: unpublish_given Fatalf_def entry_Fatalf_def entry_Info_def
      split: sum.splits option.splits)

section \<open>The example runs\<close>

lemma example_flags_given: "flags_given example_ctx"
  by (simp add: flags_given_def example_ctx_def example_flags_def flag_defs)

lemma example_client_of:
  "client_of (example_env cl) (init lg) example_ctx =
     ([ReadsFile ''cert.pem'',
       CreatesClient ''https://management.core.windows.net'' ''sub-1'' ''PEM''], Inr cl)"
  by (simp add: client_of_def mkClient_def readCert_def example_env_def example_ctx_def
      example_flags_def flag_defs)

lemma example_names:
  "String example_ctx (FlagName flNamespace) = ''Microsoft.Azure.Extensions''"
  "String example_ctx (FlagName flName) = ''FooExtension''"
  "String example_ctx (FlagName flVersion) = ''1.0.0''"
  by (simp_all add: example_ctx_def example_flags_def flag_defs)

lemma example_json_flags_given: "flags_given example_ctx_json"
  by (simp add: flags_given_def example_ctx_json_def example_flags_def flag_defs)

lemma example_json_client_of:
  "client_of (example_env cl) (init lg) example_ctx_json =
     ([ReadsFile ''cert.pem'',
       CreatesClient ''https://management.core.windows.net'' ''sub-1'' ''PEM''], Inr cl)"
  by (simp add: client_of_def mkClient_def readCert_def example_env_def example_ctx_json_def
      example_flags_def flag_defs)

lemma example_json_names:
  "String example_ctx_json (FlagName flNamespace) = ''Microsoft.Azure.Extensions''"
  "String example_ctx_json (FlagName flName) = ''FooExtension''"
  "String example_ctx_json (FlagName flVersion) = ''1.0.0''"
  by (simp_all add: example_ctx_json_def example_flags_def flag_defs)

lemma example_json_flag:
  "Bool example_ctx_json (FlagName flJSON)" "\<not> Bool example_ctx (FlagName flJSON)"
  by (simp_all add: example_ctx_json_def example_ctx_def flag_defs)

lemma example_fetch:
  "GetReplicationStatus example_client ns name version = Inr \<lparr>Statuses = example_statuses\<rparr>"
  by (simp add: example_client_def)

lemma example_marshal:
  "json_MarshalIndent (example_env cl) example_statuses [] ''  ''
     = Inr ''West US:Completed;Japan East:InProgress;''"
  by (simp add: example_env_def example_statuses_def)

lemma example_update:
  "UpdateExtension example_client b = Inr ''op-1''" "WaitForOperation example_client op = None"
  by (simp_all add: example_client_def)

lemma example_replication_run:
  "replicationStatus (example_env example_client) (init lg) example_ctx =
     ([ReadsFile ''cert.pem'',
       CreatesClient ''https://management.core.windows.net'' ''sub-1'' ''PEM'',
       Writes Stderr (LogEntry DebugLevel [] (Sprint [ArgString ''Requesting replication status.''])),
       Calls (GetReplicationStatusReq ''Microsoft.Azure.Extensions'' ''FooExtension'' ''1.0.0''),
       Writes Stdout (TableOut [''Location'', ''Status'']
         [[''West US'', ''Completed''], [''Japan East'', ''InProgress'']])],
      Inr ())"
  by (simp add: replication_given example_flags_given example_client_of example_names Debug_def
      example_client_def printAsTable_eq example_statuses_def)
    (simp add: example_ctx_def flag_defs)

lemma example_unpublish_calls:
  "api_calls (fst (unpublishVersion (example_env example_client) (init lg) example_ctx))
     = [UpdateExtensionReq (body_of example_ctx), WaitForOperationReq ''op-1'']"
  by (simp add: unpublish_given example_flags_given example_client_of example_update
      entry_Info_def)

lemma example_no_namespace_client_of:
  "client_of (example_env cl) (init lg) example_ctx_no_namespace =
     ([ReadsFile ''cert.pem'',
       CreatesClient ''https://management.core.windows.net'' ''sub-1'' ''PEM''], Inr cl)"
  by (simp add: client_of_def mkClient_def readCert_def example_env_def example_ctx_no_namespace_def
      example_flags_def flag_defs)

lemma example_no_namespace_missing:
  "first_missing example_ctx_no_namespace
     [FlagName flNamespace, FlagName flName, FlagName flVersion,
      FlagName flMgtURL, FlagName flSubsID, FlagName flSubsCert] = Some ''namespace''"
  "first_missing example_ctx_no_namespace
     [FlagName flMgtURL, FlagName flSubsID, FlagName flSubsCert] = None"
  "first_missing example_ctx_no_namespace
     [FlagName flNamespace, FlagName flName, FlagName flVersion] = Some ''namespace''"
  "\<not> flags_given example_ctx_no_namespace"
  by (simp_all add: first_missing_def flags_given_def example_ctx_no_namespace_def
      example_flags_def flag_defs)

lemma example_no_subscription_missing:
  "first_missing example_ctx_no_subscription
     [FlagName flMgtURL, FlagName flSubsID, FlagName flSubsCert] = Some ''subscription-id''"
  by (simp add: first_missing_def example_ctx_no_subscription_def example_flags_def flag_defs)

lemma example_plain:
  "plain (String example_ctx (FlagName flNamespace))"
  "plain (String example_ctx (FlagName flName))"
  "plain (String example_ctx (FlagName flVersion))"
  by (simp_all add: example_names plain_def xml_char_def sublist_Cons_right)

lemma example_xml_flag: "\<not> Bool example_ctx (FlagName flIsXMLExtension)"
  by (simp add: example_ctx_def)

lemma example_markup_flags_given: "flags_given example_ctx_markup"
  by (simp add: flags_given_def example_ctx_markup_def example_flags_def flag_defs)

lemma example_markup_client_of:
  "client_of (example_env cl) (init lg) example_ctx_markup =
     ([ReadsFile ''cert.pem'',
       CreatesClient ''https://management.core.windows.net'' ''sub-1'' ''PEM''], Inr cl)"
  by (simp add: client_of_def mkClient_def readCert_def example_env_def example_ctx_markup_def
      example_flags_def flag_defs)

lemma example_markup_body:
  "body_of example_ctx_markup = manifest_text False ''a<b'' ''FooExtension'' ''1.0.0''"
  by (simp add: body_of_def example_ctx_markup_def example_flags_def flag_defs)

lemma example_markup_unparsed:
  "xml_parse (manifest_text False ''a<b'' ''FooExtension'' ''1.0.0'') = None"
  by (simp add: xml_parse_def xml_tokens_def manifest_text_def seg_head_def seg_type_def
      seg_version_def seg_tail_def flush_chars_def xml_char_def name_start_def ident_start_def)

lemma example_unpublish_bodies:
  "request_bodies (fst (unpublishVersion (example_env example_client) (init lg) example_ctx))
     = [body_of example_ctx]"
  by (rule unpublish_bodies_given [OF example_flags_given example_client_of])

lemma example_unpublish_run:
  "unpublishVersion (example_env example_client) (init lg) example_ctx =
     ([ReadsFile ''cert.pem'',
       CreatesClient ''https://management.core.windows.net'' ''sub-1'' ''PEM'',
       Calls (UpdateExtensionReq (body_of example_ctx)),
       Writes Stderr (LogEntry InfoLevel [(''x-ms-operation-id'', ''op-1'')]
         (Sprint [ArgString ''UpdateExtension operation started.''])),
       Calls (WaitForOperationReq ''op-1''),
       Writes Stderr (LogEntry InfoLevel [(''x-ms-operation-id'', ''op-1'')]
         (Sprint [ArgString ''UpdateExtension operation finished.'']))],
      Inr ())"
  by (simp add: unpublish_given example_flags_given example_client_of example_update
      entry_Info_def)

lemma example_readCert: "snd (readCert (example_env cl) ''cert.pem'') = Inr (Inr ''PEM'')"
  by (simp add: readCert_def example_env_def)

lemma injected_flags_given: "flags_given example_ctx_injected"
  by (simp add: flags_given_def example_ctx_injected_def example_flags_def flag_defs)

lemma injected_client_of:
  "client_of (example_env cl) (init lg) example_ctx_injected =
     ([ReadsFile ''cert.pem'',
       CreatesClient ''https://management.core.windows.net'' ''sub-1'' ''PEM''], Inr cl)"
  by (simp add: client_of_def mkClient_def readCert_def example_env_def example_ctx_injected_def
      example_flags_def flag_defs)

lemma injected_body:
  "body_of example_ctx_injected =
     manifest_text True ''Microsoft.Azure.Extensions''
       ''x</Type><IsJsonExtension>true</IsJsonExtension><Type>y'' ''1.0.0''"
  by (simp add: body_of_def example_ctx_injected_def example_flags_def flag_defs)

lemma injected_parsed:
  "map_option child_elements
     (xml_parse (manifest_text True ''Microsoft.Azure.Extensions''
        ''x</Type><IsJsonExtension>true</IsJsonExtension><Type>y'' ''1.0.0'')) =
   Some [(''ProviderNameSpace'', ''Microsoft.Azure.Extensions''), (''Type'', ''x''),
         (''IsJsonExtension'', ''true''), (''Type'', ''y''), (''Version'', ''1.0.0''),
         (''IsInternalExtension'', ''true'')]"
  by (simp add: xml_parse_def xml_tokens_def manifest_text_def seg_head_def seg_type_def
      seg_version_def seg_tail_def flush_chars_def xml_char_def name_start_def ident_start_def
      manifest_tags manifest_root_tag manifest_decl xml_space_def)

section \<open>readCert\<close>

text \<open>
  C8. \<^verbatim>\<open>readCert\<close> reads the file once. If the read fails it returns that error. If the
  bytes hold a PEM block it returns the bytes unchanged. Otherwise it decodes them as
  PKCS#12 with the empty password: it returns the decoding error, or the concatenation of
  the PEM encodings of the blocks, in order. It returns an error exactly when the read
  fails or the PKCS#12 decoding is reached and fails.
\<close>

theorem readCert_result:
  "fst (readCert ev certFile) = [ReadsFile certFile] \<and>
   (\<forall>err. ReadFile ev certFile = Inl err \<longrightarrow> snd (readCert ev certFile) = Inr (Inl err)) \<and>
   (\<forall>b p. ReadFile ev certFile = Inr b \<and> pem_Decode ev b = Some p \<longrightarrow>
      snd (readCert ev certFile) = Inr (Inr b)) \<and>
   (\<forall>b err. ReadFile ev certFile = Inr b \<and> pem_Decode ev b = None \<and>
      pkcs12_ToPEM ev b [] = Inl err \<longrightarrow> snd (readCert ev certFile) = Inr (Inl err)) \<and>
   (\<forall>b pemBlocks. ReadFile ev certFile = Inr b \<and> pem_Decode ev b = None \<and>
      pkcs12_ToPEM ev b [] = Inr pemBlocks \<longrightarrow>
      snd (readCert ev certFile) = Inr (Inr (concat (map (pem_EncodeToMemory ev) pemBlocks)))) \<and>
   ((\<exists>err. snd (readCert ev certFile) = Inr (Inl err)) \<longleftrightarrow>
      (\<exists>err. ReadFile ev certFile = Inl err) \<or>
      (\<exists>b err. ReadFile ev certFile = Inr b \<and> pem_Decode ev b = None \<and>
         pkcs12_ToPEM ev b [] = Inl err))"
  by (auto simp: readCert_def foldl_append_concat split: sum.splits option.splits)

theorem readCert_result_witness:
  "ReadFile (example_env example_client) ''missing.pem'' = Inl (ErrorNew ''no such file'') \<and>
   readCert (example_env example_client) ''missing.pem''
     = ([ReadsFile ''missing.pem''], Inr (Inl (ErrorNew ''no such file''))) \<and>
   ReadFile (example_env example_client) ''cert.pem'' = Inr ''PEM'' \<and>
   pem_Decode (example_env example_client) ''PEM'' = Some (example_block ''CERTIFICATE'') \<and>
   readCert (example_env example_client) ''cert.pem'' = ([ReadsFile ''cert.pem''], Inr (Inr ''PEM'')) \<and>
   ReadFile (example_env example_client) ''notes.txt'' = Inr ''hello'' \<and>
   pem_Decode (example_env example_client) ''hello'' = None \<and>
   pkcs12_ToPEM (example_env example_client) ''hello'' []
     = Inl (ErrorNew ''pkcs12: error reading P12 data'') \<and>
   readCert (example_env example_client) ''notes.txt''
     = ([ReadsFile ''notes.txt''], Inr (Inl (ErrorNew ''pkcs12: error reading P12 data''))) \<and>
   ReadFile (example_env example_client) ''cert.pfx'' = Inr ''PFX'' \<and>
   pem_Decode (example_env example_client) ''PFX'' = None \<and>
   pkcs12_ToPEM (example_env example_client) ''PFX'' []
     = Inr [example_block ''CERTIFICATE'', example_block ''PRIVATE KEY''] \<and>
   readCert (example_env example_client) ''cert.pfx''
     = ([ReadsFile ''cert.pfx''], Inr (Inr ''[CERTIFICATE][PRIVATE KEY]''))"
  using readCert_result [of "example_env example_client" "''missing.pem''"]
    readCert_result [of "example_env example_client" "''cert.pem''"]
    readCert_result [of "example_env example_client" "''notes.txt''"]
    readCert_result [of "example_env example_client" "''cert.pfx''"]
  by (simp add: example_env_def example_block_def prod_eq_iff)

section \<open>Remote failures\<close>

text \<open>
  C2. When a remote call returns an error, \<^verbatim>\<open>replication-status\<close> and \<^verbatim>\<open>unpublish-version\<close>
  log the error itself, as the argument of a fatal message on stderr, and exit with
  status 1. Nothing follows the failed call: no further request, no retry. This holds for
  the error of \<^verbatim>\<open>GetReplicationStatus\<close>, of \<^verbatim>\<open>UpdateExtension\<close> and of \<^verbatim>\<open>WaitForOperation\<close>.
\<close>

theorem remote_errors_are_fatal:
  assumes "flags_given c" and "client_of ev (init lg) c = (es, Inr cl)"
  shows
   "(\<forall>err. GetReplicationStatus cl (String c (FlagName flNamespace)) (String c (FlagName flName))
        (String c (FlagName flVersion)) = Inl err \<longrightarrow>
      replicationStatus ev (init lg) c =
        (es @
         [Writes Stderr (LogEntry DebugLevel [] (Sprint [ArgString ''Requesting replication status.''])),
          Calls (GetReplicationStatusReq (String c (FlagName flNamespace))
            (String c (FlagName flName)) (String c (FlagName flVersion))),
          Writes Stderr (LogEntry FatalLevel []
            (Sprintf ''Cannot fetch replication status: %v'' [ArgError err]))],
         Inl 1)) \<and>
    (\<forall>err. UpdateExtension cl (body_of c) = Inl err \<longrightarrow>
      unpublishVersion ev (init lg) c =
        (es @
         [Calls (UpdateExtensionReq (body_of c)),
          Writes Stderr (LogEntry FatalLevel [] (Sprintf ''UpdateExtension failed: %v'' [ArgError err]))],
         Inl 1)) \<and>
    (\<forall>op err. UpdateExtension cl (body_of c) = Inr op \<and> WaitForOperation cl op = Some err \<longrightarrow>
      unpublishVersion ev (init lg) c =
        (es @
         [Calls (UpdateExtensionReq (body_of c)),
          Writes Stderr (LogEntry InfoLevel [(''x-ms-operation-id'', op)]
            (Sprint [ArgString ''UpdateExtension operation started.''])),
          Calls (WaitForOperationReq op),
          Writes Stderr (LogEntry FatalLevel [(''x-ms-operation-id'', op)]
            (Sprintf ''UpdateExtension failed: %v'' [ArgError err]))],
         Inl 1)) \<and>
    api_calls es = []"
proof -
  have "api_calls es = []"
    using assms(2) by (auto simp: client_of_def dest: mkClient_ok)
  then show ?thesis
    using assms
    by (simp add: unpublish_given replication_given Debug_def Fatalf_def entry_Fatalf_def
        entry_Info_def)
qed

theorem remote_errors_are_fatal_witness:
  "flags_given example_ctx \<and>
   client_of (example_env refusing_client) (init example_logger) example_ctx =
     ([ReadsFile ''cert.pem'',
       CreatesClient ''https://management.core.windows.net'' ''sub-1'' ''PEM''], Inr refusing_client) \<and>
   GetReplicationStatus refusing_client ''Microsoft.Azure.Extensions'' ''FooExtension'' ''1.0.0''
     = Inl (ErrorNew ''403 Forbidden'') \<and>
   replicationStatus (example_env refusing_client) (init example_logger) example_ctx =
     ([ReadsFile ''cert.pem'',
       CreatesClient ''https://management.core.windows.net'' ''sub-1'' ''PEM'',
       Writes Stderr (LogEntry DebugLevel [] (Sprint [ArgString ''Requesting replication status.''])),
       Calls (GetReplicationStatusReq ''Microsoft.Azure.Extensions'' ''FooExtension'' ''1.0.0''),
       Writes Stderr (LogEntry FatalLevel []
         (Sprintf ''Cannot fetch replication status: %v'' [ArgError (ErrorNew ''403 Forbidden'')]))],
      Inl 1) \<and>
   UpdateExtension refusing_client (body_of example_ctx) = Inl (ErrorNew ''403 Forbidden'') \<and>
   unpublishVersion (example_env refusing_client) (init example_logger) example_ctx =
     ([ReadsFile ''cert.pem'',
       CreatesClient ''https://management.core.windows.net'' ''sub-1'' ''PEM'',
       Calls (UpdateExtensionReq (body_of example_ctx)),
       Writes Stderr (LogEntry FatalLevel []
         (Sprintf ''UpdateExtension failed: %v'' [ArgError (ErrorNew ''403 Forbidden'')]))],
      Inl 1) \<and>
   UpdateExtension stalling_client (body_of example_ctx) = Inr ''op-2'' \<and>
   WaitForOperation stalling_client ''op-2'' = Some (ErrorNew ''operation failed'') \<and>
   unpublishVersion (example_env stalling_client) (init example_logger) example_ctx =
     ([ReadsFile ''cert.pem'',
       CreatesClient ''https://management.core.windows.net'' ''sub-1'' ''PEM'',
       Calls (UpdateExtensionReq (body_of example_ctx)),
       Writes Stderr (LogEntry InfoLevel [(''x-ms-operation-id'', ''op-2'')]
         (Sprint [ArgString ''UpdateExtension operation started.''])),
       Calls (WaitForOperationReq ''op-2''),
       Writes Stderr (LogEntry FatalLevel [(''x-ms-operation-id'', ''op-2'')]
         (Sprintf ''UpdateExtension failed: %v'' [ArgError (ErrorNew ''operation failed'')]))],
      Inl 1)"
  using remote_errors_are_fatal [OF example_flags_given example_client_of, of refusing_client example_logger]
    remote_errors_are_fatal [OF example_flags_given example_client_of, of stalling_client example_logger]
  by (simp add: example_flags_given example_client_of example_names refusing_client_def
      stalling_client_def)

section \<open>Printing the replication status\<close>

text \<open>
  C6. \<^verbatim>\<open>replication-status\<close> prints the response it fetched and nothing made from it: with
  the flags given, the client created and \<^verbatim>\<open>GetReplicationStatus\<close> returning \<open>rs\<close>, the run
  ends, after the request, with one write to stdout. Without \<^verbatim>\<open>--json\<close> that is the table
  with the header Location, Status and one row per entry of \<open>Statuses rs\<close>, holding that
  entry's Location and Status, in the order of the response; with \<^verbatim>\<open>--json\<close> it is what
  \<^verbatim>\<open>json.MarshalIndent\<close> returns for that same \<open>Statuses rs\<close> (two-space indent). The two
  printers do the same for any response: no entry is filtered, reordered or changed.
\<close>

theorem replicationStatus_mirrors_statuses:
  assumes "flags_given c" and "client_of ev (init lg) c = (es, Inr cl)"
    and "GetReplicationStatus cl (String c (FlagName flNamespace)) (String c (FlagName flName))
           (String c (FlagName flVersion)) = Inr rs"
  shows
   "(\<not> Bool c (FlagName flJSON) \<longrightarrow>
       replicationStatus ev (init lg) c =
         (es @
          [Writes Stderr (LogEntry DebugLevel [] (Sprint [ArgString ''Requesting replication status.''])),
           Calls (GetReplicationStatusReq (String c (FlagName flNamespace))
             (String c (FlagName flName)) (String c (FlagName flVersion))),
           Writes Stdout (TableOut [''Location'', ''Status'']
             (map (\<lambda>s. [Location s, Status s]) (Statuses rs)))],
          Inr ())) \<and>
    (Bool c (FlagName flJSON) \<longrightarrow>
       (\<forall>b. json_MarshalIndent ev (Statuses rs) [] ''  '' = Inr b \<longrightarrow>
          replicationStatus ev (init lg) c =
            (es @
             [Writes Stderr (LogEntry DebugLevel [] (Sprint [ArgString ''Requesting replication status.''])),
              Calls (GetReplicationStatusReq (String c (FlagName flNamespace))
                (String c (FlagName flName)) (String c (FlagName flVersion))),
              Writes Stdout (Payload b)],
             Inr ()))) \<and>
    (\<forall>r. printAsTable r =
       ([Writes Stdout (TableOut [''Location'', ''Status'']
           (map (\<lambda>s. [Location s, Status s]) (Statuses r)))], Inr None)) \<and>
    (\<forall>r b. json_MarshalIndent ev (Statuses r) [] ''  '' = Inr b \<longrightarrow>
       printAsJSON ev r = ([Writes Stdout (Payload b)], Inr None)) \<and>
    (\<forall>r err. json_MarshalIndent ev (Statuses r) [] ''  '' = Inl err \<longrightarrow>
       printAsJSON ev r = ([], Inr (Some (Errorf ''failed to format as json: %+v'' err))))"
  using assms
  by (simp add: replication_given Debug_def printAsTable_eq printAsJSON_eq)

theorem replicationStatus_mirrors_statuses_witness:
  "flags_given example_ctx \<and>
   client_of (example_env example_client) (init example_logger) example_ctx =
     ([ReadsFile ''cert.pem'',
       CreatesClient ''https://management.core.windows.net'' ''sub-1'' ''PEM''], Inr example_client) \<and>
   GetReplicationStatus example_client ''Microsoft.Azure.Extensions'' ''FooExtension'' ''1.0.0''
     = Inr \<lparr>Statuses = example_statuses\<rparr> \<and>
   \<not> Bool example_ctx (FlagName flJSON) \<and>
   replicationStatus (example_env example_client) (init example_logger) example_ctx =
     ([ReadsFile ''cert.pem'',
       CreatesClient ''https://management.core.windows.net'' ''sub-1'' ''PEM'',
       Writes Stderr (LogEntry DebugLevel [] (Sprint [ArgString ''Requesting replication status.''])),
       Calls (GetReplicationStatusReq ''Microsoft.Azure.Extensions'' ''FooExtension'' ''1.0.0''),
       Writes Stdout (TableOut [''Location'', ''Status'']
         [[''West US'', ''Completed''], [''Japan East'', ''InProgress'']])],
      Inr ()) \<and>
   flags_given example_ctx_json \<and>
   Bool example_ctx_json (FlagName flJSON) \<and>
   json_MarshalIndent (example_env example_client) example_statuses [] ''  ''
     = Inr ''West US:Completed;Japan East:InProgress;'' \<and>
   replicationStatus (example_env example_client) (init example_logger) example_ctx_json =
     ([ReadsFile ''cert.pem'',
       CreatesClient ''https://management.core.windows.net'' ''sub-1'' ''PEM'',
       Writes Stderr (LogEntry DebugLevel [] (Sprint [ArgString ''Requesting replication status.''])),
       Calls (GetReplicationStatusReq ''Microsoft.Azure.Extensions'' ''FooExtension'' ''1.0.0''),
       Writes Stdout (Payload ''West US:Completed;Japan East:InProgress;'')],
      Inr ())"
  using replicationStatus_mirrors_statuses [OF example_flags_given
      example_client_of [of example_client example_logger] example_fetch]
    replicationStatus_mirrors_statuses [OF example_json_flags_given
      example_json_client_of [of example_client example_logger] example_fetch]
  by (simp add: example_flags_given example_client_of example_json_flags_given example_fetch
      example_marshal example_json_flag example_names example_json_names)
    (simp add: example_statuses_def)

text \<open>
  C3. After a successful \<^verbatim>\<open>GetReplicationStatus\<close>, \<^verbatim>\<open>replication-status\<close> writes to stdout
  the indented JSON of the statuses when \<^verbatim>\<open>--json\<close> is set, and the two-column table when
  it is not; nothing else reaches stdout. (Should the marshalling fail, nothing is printed
  and the command exits with status 1.)
\<close>

theorem replicationStatus_output:
  assumes "flags_given c" and "client_of ev (init lg) c = (es, Inr cl)"
    and "GetReplicationStatus cl (String c (FlagName flNamespace)) (String c (FlagName flName))
           (String c (FlagName flVersion)) = Inr rs"
  shows
   "(Bool c (FlagName flJSON) \<longrightarrow>
      (\<forall>b. json_MarshalIndent ev (Statuses rs) [] ''  '' = Inr b \<longrightarrow>
         written_to Stdout (fst (replicationStatus ev (init lg) c)) = [Payload b] \<and>
         snd (replicationStatus ev (init lg) c) = Inr ()) \<and>
      (\<forall>err. json_MarshalIndent ev (Statuses rs) [] ''  '' = Inl err \<longrightarrow>
         written_to Stdout (fst (replicationStatus ev (init lg) c)) = [] \<and>
         snd (replicationStatus ev (init lg) c) = Inl 1)) \<and>
    (\<not> Bool c (FlagName flJSON) \<longrightarrow>
       written_to Stdout (fst (replicationStatus ev (init lg) c)) =
         [TableOut [''Location'', ''Status''] (map (\<lambda>s. [Location s, Status s]) (Statuses rs))] \<and>
       snd (replicationStatus ev (init lg) c) = Inr ())"
proof -
  have "written_to Stdout es = []"
    using assms(2) by (auto dest: client_of_ok)
  then show ?thesis
    using assms
    by (simp add: replication_given Debug_def Fatal_def printAsTable_def printAsJSON_def
        NewWriter_def SetHeader_def AppendBulk_def Render_def foldl_snoc_map Let_def)
qed

theorem replicationStatus_output_witness:
  "flags_given example_ctx \<and>
   client_of (example_env example_client) (init example_logger) example_ctx =
     ([ReadsFile ''cert.pem'',
       CreatesClient ''https://management.core.windows.net'' ''sub-1'' ''PEM''], Inr example_client) \<and>
   GetReplicationStatus example_client ''Microsoft.Azure.Extensions'' ''FooExtension'' ''1.0.0''
     = Inr \<lparr>Statuses = example_statuses\<rparr> \<and>
   \<not> Bool example_ctx (FlagName flJSON) \<and>
   written_to Stdout
     (fst (replicationStatus (example_env example_client) (init example_logger) example_ctx))
     = [TableOut [''Location'', ''Status'']
         [[''West US'', ''Completed''], [''Japan East'', ''InProgress'']]] \<and>
   snd (replicationStatus (example_env example_client) (init example_logger) example_ctx) = Inr () \<and>
   flags_given example_ctx_json \<and>
   Bool example_ctx_json (FlagName flJSON) \<and>
   json_MarshalIndent (example_env example_client) example_statuses [] ''  ''
     = Inr ''West US:Completed;Japan East:InProgress;'' \<and>
   written_to Stdout
     (fst (replicationStatus (example_env example_client) (init example_logger) example_ctx_json))
     = [Payload ''West US:Completed;Japan East:InProgress;''] \<and>
   snd (replicationStatus (example_env example_client) (init example_logger) example_ctx_json) = Inr ()"
  using replicationStatus_output [OF example_flags_given
      example_client_of [of example_client example_logger] example_fetch]
    replicationStatus_output [OF example_json_flags_given
      example_json_client_of [of example_client example_logger] example_fetch]
  by (simp add: example_flags_given example_client_of example_json_flags_given example_fetch
      example_marshal example_json_flag)
    (simp add: example_statuses_def)

section \<open>The order of remote calls\<close>

text \<open>
  C5. In \<^verbatim>\<open>unpublish-version\<close> a \<^verbatim>\<open>WaitForOperation\<close> call is made only after
  \<^verbatim>\<open>UpdateExtension\<close> has returned an operation id without error, and for that id. The remote
  calls of a run are, in order: none, or \<^verbatim>\<open>UpdateExtension\<close> alone, or \<^verbatim>\<open>UpdateExtension\<close>
  followed by \<^verbatim>\<open>WaitForOperation\<close>; each call has returned before the next effect begins.
\<close>

theorem wait_follows_update:
  "(\<forall>op. WaitForOperationReq op \<in> set (api_calls (fst (unpublishVersion ev lg c))) \<longrightarrow>
      (\<exists>es cl. client_of ev lg c = (es, Inr cl) \<and> UpdateExtension cl (body_of c) = Inr op \<and>
         api_calls (fst (unpublishVersion ev lg c))
           = [UpdateExtensionReq (body_of c), WaitForOperationReq op])) \<and>
   (api_calls (fst (unpublishVersion ev lg c)) = [] \<or>
    api_calls (fst (unpublishVersion ev lg c)) = [UpdateExtensionReq (body_of c)] \<or>
    (\<exists>op. api_calls (fst (unpublishVersion ev lg c))
       = [UpdateExtensionReq (body_of c), WaitForOperationReq op]))"
proof (cases "flags_given c")
  case False
  then show ?thesis
    using unpublish_not_given [of c ev lg] by simp
next
  case True
  obtain es r where mk: "client_of ev lg c = (es, r)"
    by (cases "client_of ev lg c") blast
  show ?thesis
  proof (cases r)
    case (Inl n)
    then show ?thesis
      using True mk client_of_exit [of ev lg c es n] by (simp add: unpublish_given)
  next
    case (Inr cl)
    then show ?thesis
      using True mk client_of_ok [of ev lg c es cl]
      by (auto simp: unpublish_given Fatalf_def entry_Fatalf_def entry_Info_def
          split: sum.splits option.splits)
  qed
qed

theorem wait_follows_update_witness:
  "WaitForOperationReq ''op-1'' \<in>
     set (api_calls (fst (unpublishVersion (example_env example_client) (init example_logger) example_ctx))) \<and>
   client_of (example_env example_client) (init example_logger) example_ctx =
     ([ReadsFile ''cert.pem'',
       CreatesClient ''https://management.core.windows.net'' ''sub-1'' ''PEM''], Inr example_client) \<and>
   UpdateExtension example_client (body_of example_ctx) = Inr ''op-1'' \<and>
   api_calls (fst (unpublishVersion (example_env example_client) (init example_logger) example_ctx))
     = [UpdateExtensionReq (body_of example_ctx), WaitForOperationReq ''op-1'']"
  using wait_follows_update [of "example_env example_client" "init example_logger" example_ctx]
  by (simp add: example_unpublish_calls example_client_of example_update)

text \<open>
  C4, as amended. A command makes a remote call only when all its flags are given and the
  client was created: it has then read the certificate file and created the client from
  it, and nothing else, before its first remote call. \<^verbatim>\<open>unpublish-version\<close> then calls
  \<^verbatim>\<open>UpdateExtension\<close>; when that fails it exits, and when it returns an operation id it
  calls \<^verbatim>\<open>WaitForOperation\<close> for that id, once, and ends when the call returns.
  \<^verbatim>\<open>replication-status\<close> logs and makes the single \<^verbatim>\<open>GetReplicationStatus\<close> call; no remote
  call follows it: it starts no operation and waits for none.
\<close>

theorem command_call_sequence:
  "(api_calls (fst (unpublishVersion ev (init lg) c)) \<noteq> [] \<or>
    api_calls (fst (replicationStatus ev (init lg) c)) \<noteq> [] \<longrightarrow>
      flags_given c \<and> (\<exists>es cl. client_of ev (init lg) c = (es, Inr cl))) \<and>
   (\<forall>es cl. flags_given c \<and> client_of ev (init lg) c = (es, Inr cl) \<longrightarrow>
      (\<exists>b. snd (readCert ev (String c (FlagName flSubsCert))) = Inr (Inr b) \<and>
         NewClient ev (String c (FlagName flMgtURL)) (String c (FlagName flSubsID)) b = Inr cl \<and>
         es = [ReadsFile (String c (FlagName flSubsCert)),
               CreatesClient (String c (FlagName flMgtURL)) (String c (FlagName flSubsID)) b]) \<and>
      (\<forall>err. UpdateExtension cl (body_of c) = Inl err \<longrightarrow>
         unpublishVersion ev (init lg) c =
           (es @
            [Calls (UpdateExtensionReq (body_of c)),
             Writes Stderr (LogEntry FatalLevel []
               (Sprintf ''UpdateExtension failed: %v'' [ArgError err]))],
            Inl 1)) \<and>
      (\<forall>op. UpdateExtension cl (body_of c) = Inr op \<longrightarrow>
         unpublishVersion ev (init lg) c =
           (es @
            [Calls (UpdateExtensionReq (body_of c)),
             Writes Stderr (LogEntry InfoLevel [(''x-ms-operation-id'', op)]
               (Sprint [ArgString ''UpdateExtension operation started.''])),
             Calls (WaitForOperationReq op),
             (case WaitForOperation cl op of
                None \<Rightarrow> Writes Stderr (LogEntry InfoLevel [(''x-ms-operation-id'', op)]
                  (Sprint [ArgString ''UpdateExtension operation finished.'']))
              | Some err \<Rightarrow> Writes Stderr (LogEntry FatalLevel [(''x-ms-operation-id'', op)]
                  (Sprintf ''UpdateExtension failed: %v'' [ArgError err])))],
            (case WaitForOperation cl op of None \<Rightarrow> Inr () | Some err \<Rightarrow> Inl 1))) \<and>
      (\<exists>tl r. replicationStatus ev (init lg) c =
         (es @
          [Writes Stderr (LogEntry DebugLevel [] (Sprint [ArgString ''Requesting replication status.''])),
           Calls (GetReplicationStatusReq (String c (FlagName flNamespace))
             (String c (FlagName flName)) (String c (FlagName flVersion)))] @ tl, r) \<and>
         api_calls tl = []))"
  using calls_need_client [of ev lg c] client_of_ok [of ev "init lg" c]
    unpublish_run_refused [of c ev lg] unpublish_run_started [of c ev lg]
    replication_run_prefix [of c ev lg]
  by blast

theorem command_call_sequence_witness:
  "api_calls (fst (unpublishVersion (example_env example_client) (init example_logger) example_ctx))
     \<noteq> [] \<and>
   flags_given example_ctx \<and>
   client_of (example_env example_client) (init example_logger) example_ctx =
     ([ReadsFile ''cert.pem'',
       CreatesClient ''https://management.core.windows.net'' ''sub-1'' ''PEM''], Inr example_client) \<and>
   snd (readCert (example_env example_client) ''cert.pem'') = Inr (Inr ''PEM'') \<and>
   UpdateExtension example_client (body_of example_ctx) = Inr ''op-1'' \<and>
   WaitForOperation example_client ''op-1'' = None \<and>
   unpublishVersion (example_env example_client) (init example_logger) example_ctx =
     ([ReadsFile ''cert.pem'',
       CreatesClient ''https://management.core.windows.net'' ''sub-1'' ''PEM'',
       Calls (UpdateExtensionReq (body_of example_ctx)),
       Writes Stderr (LogEntry InfoLevel [(''x-ms-operation-id'', ''op-1'')]
         (Sprint [ArgString ''UpdateExtension operation started.''])),
       Calls (WaitForOperationReq ''op-1''),
       Writes Stderr (LogEntry InfoLevel [(''x-ms-operation-id'', ''op-1'')]
         (Sprint [ArgString ''UpdateExtension operation finished.'']))],
      Inr ()) \<and>
   UpdateExtension stalling_client (body_of example_ctx) = Inr ''op-2'' \<and>
   WaitForOperation stalling_client ''op-2'' = Some (ErrorNew ''operation failed'') \<and>
   unpublishVersion (example_env stalling_client) (init example_logger) example_ctx =
     ([ReadsFile ''cert.pem'',
       CreatesClient ''https://management.core.windows.net'' ''sub-1'' ''PEM'',
       Calls (UpdateExtensionReq (body_of example_ctx)),
       Writes Stderr (LogEntry InfoLevel [(''x-ms-operation-id'', ''op-2'')]
         (Sprint [ArgString ''UpdateExtension operation started.''])),
       Calls (WaitForOperationReq ''op-2''),
       Writes Stderr (LogEntry FatalLevel [(''x-ms-operation-id'', ''op-2'')]
         (Sprintf ''UpdateExtension failed: %v'' [ArgError (ErrorNew ''operation failed'')]))],
      Inl 1) \<and>
   replicationStatus (example_env example_client) (init example_logger) example_ctx =
     ([ReadsFile ''cert.pem'',
       CreatesClient ''https://management.core.windows.net'' ''sub-1'' ''PEM'',
       Writes Stderr (LogEntry DebugLevel [] (Sprint [ArgString ''Requesting replication status.''])),
       Calls (GetReplicationStatusReq ''Microsoft.Azure.Extensions'' ''FooExtension'' ''1.0.0''),
       Writes Stdout (TableOut [''Location'', ''Status'']
         [[''West US'', ''Completed''], [''Japan East'', ''InProgress'']])],
      Inr ())"
  using command_call_sequence [of "example_env example_client" example_logger example_ctx]
    command_call_sequence [of "example_env stalling_client" example_logger example_ctx]
  by (simp add: example_flags_given example_client_of example_update example_replication_run
      example_unpublish_calls stalling_client_def example_readCert)

text \<open>
  C4 as stated fails for \<^verbatim>\<open>replication-status\<close>: a successful run makes one remote call,
  \<^verbatim>\<open>GetReplicationStatus\<close>, and never waits for an operation.
\<close>

theorem replicationStatus_never_waits:
  "api_calls (fst (replicationStatus (example_env example_client) (init example_logger) example_ctx))
     = [GetReplicationStatusReq ''Microsoft.Azure.Extensions'' ''FooExtension'' ''1.0.0''] \<and>
   snd (replicationStatus (example_env example_client) (init example_logger) example_ctx) = Inr ()"
  by (simp add: example_replication_run)

section \<open>Missing flags\<close>

text \<open>
  C7, as amended. A command given an empty required flag exits with status 1 and makes no
  remote call. \<^verbatim>\<open>unpublish-version\<close> checks all six flags before anything else: its only
  effect is the fatal entry naming the first empty flag in the order namespace, name,
  version, management-url, subscription-id, subscription-cert, and no file is read.
  \<^verbatim>\<open>replication-status\<close> checks management-url, subscription-id and subscription-cert first
  (again the fatal entry is its only effect); it then reads the certificate and creates the
  client, and only after that checks namespace, name and version, so the fatal entry naming
  one of these follows the certificate read.
\<close>

theorem missing_flag_is_fatal:
  "(\<forall>fl. first_missing c [FlagName flNamespace, FlagName flName, FlagName flVersion,
        FlagName flMgtURL, FlagName flSubsID, FlagName flSubsCert] = Some fl \<longrightarrow>
      unpublishVersion ev (init lg) c = ([missing_flag fl], Inl 1)) \<and>
   (\<forall>fl. first_missing c [FlagName flMgtURL, FlagName flSubsID, FlagName flSubsCert] = Some fl \<longrightarrow>
      replicationStatus ev (init lg) c = ([missing_flag fl], Inl 1)) \<and>
   (\<forall>fl es cl.
      first_missing c [FlagName flMgtURL, FlagName flSubsID, FlagName flSubsCert] = None \<and>
      first_missing c [FlagName flNamespace, FlagName flName, FlagName flVersion] = Some fl \<and>
      client_of ev (init lg) c = (es, Inr cl) \<longrightarrow>
      replicationStatus ev (init lg) c = (es @ [missing_flag fl], Inl 1)) \<and>
   (\<not> flags_given c \<longrightarrow>
      api_calls (fst (unpublishVersion ev (init lg) c)) = [] \<and>
      file_reads (fst (unpublishVersion ev (init lg) c)) = [] \<and>
      snd (unpublishVersion ev (init lg) c) = Inl 1 \<and>
      api_calls (fst (replicationStatus ev (init lg) c)) = [] \<and>
      snd (replicationStatus ev (init lg) c) = Inl 1)"
  using unpublish_missing [of c _ ev lg] replication_missing_early [of c _ ev lg]
    replication_missing_late [of c _ ev lg] unpublish_not_given [of c ev "init lg"]
    unpublish_not_given_reads [of c ev lg] replication_not_given [of c ev lg]
  by blast

theorem missing_flag_is_fatal_witness:
  "first_missing example_ctx_no_namespace
     [FlagName flNamespace, FlagName flName, FlagName flVersion,
      FlagName flMgtURL, FlagName flSubsID, FlagName flSubsCert] = Some ''namespace'' \<and>
   unpublishVersion (example_env example_client) (init example_logger) example_ctx_no_namespace
     = ([missing_flag ''namespace''], Inl 1) \<and>
   first_missing example_ctx_no_subscription
     [FlagName flMgtURL, FlagName flSubsID, FlagName flSubsCert] = Some ''subscription-id'' \<and>
   replicationStatus (example_env example_client) (init example_logger) example_ctx_no_subscription
     = ([missing_flag ''subscription-id''], Inl 1) \<and>
   first_missing example_ctx_no_namespace
     [FlagName flMgtURL, FlagName flSubsID, FlagName flSubsCert] = None \<and>
   first_missing example_ctx_no_namespace
     [FlagName flNamespace, FlagName flName, FlagName flVersion] = Some ''namespace'' \<and>
   client_of (example_env example_client) (init example_logger) example_ctx_no_namespace =
     ([ReadsFile ''cert.pem'',
       CreatesClient ''https://management.core.windows.net'' ''sub-1'' ''PEM''], Inr example_client) \<and>
   replicationStatus (example_env example_client) (init example_logger) example_ctx_no_namespace =
     ([ReadsFile ''cert.pem'',
       CreatesClient ''https://management.core.windows.net'' ''sub-1'' ''PEM'',
       missing_flag ''namespace''], Inl 1) \<and>
   \<not> flags_given example_ctx_no_namespace \<and>
   api_calls (fst (replicationStatus (example_env example_client) (init example_logger)
     example_ctx_no_namespace)) = [] \<and>
   file_reads (fst (unpublishVersion (example_env example_client) (init example_logger)
     example_ctx_no_namespace)) = []"
  using missing_flag_is_fatal [of example_ctx_no_namespace "example_env example_client" example_logger]
    missing_flag_is_fatal [of example_ctx_no_subscription "example_env example_client" example_logger]
  by (simp add: example_no_namespace_missing example_no_subscription_missing
      example_no_namespace_client_of missing_flag_def)

text \<open>
  C7 as stated fails for \<^verbatim>\<open>replication-status\<close>: without \<^verbatim>\<open>--namespace\<close> the certificate file
  is read and the client created before the command fails on the flag.
\<close>

theorem replicationStatus_reads_certificate_first:
  "String example_ctx_no_namespace (FlagName flNamespace) = [] \<and>
   replicationStatus (example_env example_client) (init example_logger) example_ctx_no_namespace =
     ([ReadsFile ''cert.pem'',
       CreatesClient ''https://management.core.windows.net'' ''sub-1'' ''PEM'',
       Writes Stderr (LogEntry FatalLevel []
         (Sprintf ''argument %q must be provided'' [ArgString ''namespace'']))], Inl 1)"
  using replication_missing_late [OF example_no_namespace_missing(2) example_no_namespace_missing(3)
      example_no_namespace_client_of [of example_client example_logger]]
  by (simp add: missing_flag_def example_ctx_no_namespace_def flag_defs)

section \<open>Streams\<close>

text \<open>
  C10. With the logger as \<^verbatim>\<open>init\<close> leaves it, everything the two commands write to stderr
  is a log entry and no log entry reaches stdout. \<^verbatim>\<open>unpublish-version\<close> writes nothing to
  stdout. What \<^verbatim>\<open>replication-status\<close> writes to stdout is nothing (when it fails), or
  exactly the marshalled JSON of the fetched statuses, or exactly their table.
\<close>

theorem logs_and_data_apart:
  "list_all is_log (written_to Stderr (fst (unpublishVersion ev (init lg) c))) \<and>
   written_to Stdout (fst (unpublishVersion ev (init lg) c)) = [] \<and>
   list_all is_log (written_to Stderr (fst (replicationStatus ev (init lg) c))) \<and>
   list_all (\<lambda>x. \<not> is_log x) (written_to Stdout (fst (replicationStatus ev (init lg) c))) \<and>
   (written_to Stdout (fst (replicationStatus ev (init lg) c)) = [] \<or>
    (\<exists>es cl rs b. client_of ev (init lg) c = (es, Inr cl) \<and>
       GetReplicationStatus cl (String c (FlagName flNamespace)) (String c (FlagName flName))
         (String c (FlagName flVersion)) = Inr rs \<and>
       Bool c (FlagName flJSON) \<and> json_MarshalIndent ev (Statuses rs) [] ''  '' = Inr b \<and>
       written_to Stdout (fst (replicationStatus ev (init lg) c)) = [Payload b]) \<or>
    (\<exists>es cl rs. client_of ev (init lg) c = (es, Inr cl) \<and>
       GetReplicationStatus cl (String c (FlagName flNamespace)) (String c (FlagName flName))
         (String c (FlagName flVersion)) = Inr rs \<and>
       \<not> Bool c (FlagName flJSON) \<and>
       written_to Stdout (fst (replicationStatus ev (init lg) c)) =
         [TableOut [''Location'', ''Status''] (map (\<lambda>s. [Location s, Status s]) (Statuses rs))]))"
proof -
  have "list_all (\<lambda>x. \<not> is_log x) (written_to Stdout (fst (replicationStatus ev (init lg) c)))"
    using replication_writes [of ev lg c] by auto
  then show ?thesis
    using replication_writes [of ev lg c] unpublish_writes [of ev lg c] by blast
qed

theorem logs_and_data_apart_witness:
  "written_to Stderr (fst (unpublishVersion (example_env example_client) (init example_logger) example_ctx))
     = [LogEntry InfoLevel [(''x-ms-operation-id'', ''op-1'')]
          (Sprint [ArgString ''UpdateExtension operation started.'']),
        LogEntry InfoLevel [(''x-ms-operation-id'', ''op-1'')]
          (Sprint [ArgString ''UpdateExtension operation finished.''])] \<and>
   written_to Stdout (fst (unpublishVersion (example_env example_client) (init example_logger) example_ctx))
     = [] \<and>
   written_to Stderr (fst (replicationStatus (example_env example_client) (init example_logger) example_ctx))
     = [LogEntry DebugLevel [] (Sprint [ArgString ''Requesting replication status.''])] \<and>
   written_to Stdout (fst (replicationStatus (example_env example_client) (init example_logger) example_ctx))
     = [TableOut [''Location'', ''Status'']
          [[''West US'', ''Completed''], [''Japan East'', ''InProgress'']]] \<and>
   list_all is_log
     (written_to Stderr (fst (replicationStatus (example_env example_client) (init example_logger) example_ctx)))"
  using logs_and_data_apart [of "example_env example_client" example_logger example_ctx]
  by (simp add: example_unpublish_run example_replication_run)

section \<open>The unpublish manifest\<close>

text \<open>
  C9, as amended. When namespace, name and version are plain character data, every body
  sent to \<^verbatim>\<open>UpdateExtension\<close> is an \<open>ExtensionImage\<close> document whose child elements are,
  in this order, \<open>ProviderNameSpace\<close>, \<open>Type\<close>, \<open>Version\<close>, \<open>IsInternalExtension\<close> and then,
  exactly when \<^verbatim>\<open>--is-xml-extension\<close> is not set, \<open>IsJsonExtension\<close>; \<open>IsInternalExtension\<close>
  holds \<open>true\<close>, and so does \<open>IsJsonExtension\<close> when it is there. With all flags given and
  the client created, that body is sent.
\<close>

theorem manifest_elements_in_order:
  assumes "plain (String c (FlagName flNamespace))" and "plain (String c (FlagName flName))"
    and "plain (String c (FlagName flVersion))"
  shows
   "(\<forall>b \<in> set (request_bodies (fst (unpublishVersion ev lg c))).
       \<exists>doc. xml_parse b = Some doc \<and> root_name doc = ''ExtensionImage'' \<and>
         map fst (child_elements doc) =
           [''ProviderNameSpace'', ''Type'', ''Version'', ''IsInternalExtension''] @
           (if Bool c (FlagName flIsXMLExtension) then [] else [''IsJsonExtension'']) \<and>
         map_of (child_elements doc) ''IsInternalExtension'' = Some ''true'' \<and>
         map_of (child_elements doc) ''IsJsonExtension'' =
           (if Bool c (FlagName flIsXMLExtension) then None else Some ''true'')) \<and>
    (\<forall>es cl. flags_given c \<and> client_of ev lg c = (es, Inr cl) \<longrightarrow>
       request_bodies (fst (unpublishVersion ev lg c)) = [body_of c])"
proof -
  have "map_option root_name (xml_parse (body_of c)) = Some ''ExtensionImage'' \<and>
     map_option child_elements (xml_parse (body_of c)) =
       Some ([(''ProviderNameSpace'', String c (FlagName flNamespace)),
              (''Type'', String c (FlagName flName)),
              (''Version'', String c (FlagName flVersion)),
              (''IsInternalExtension'', ''true'')] @
             (if Bool c (FlagName flIsXMLExtension) then [] else [(''IsJsonExtension'', ''true'')]))"
    unfolding body_of_def by (rule manifest_parse [OF assms])
  then have "\<exists>doc. xml_parse (body_of c) = Some doc \<and> root_name doc = ''ExtensionImage'' \<and>
         map fst (child_elements doc) =
           [''ProviderNameSpace'', ''Type'', ''Version'', ''IsInternalExtension''] @
           (if Bool c (FlagName flIsXMLExtension) then [] else [''IsJsonExtension'']) \<and>
         map_of (child_elements doc) ''IsInternalExtension'' = Some ''true'' \<and>
         map_of (child_elements doc) ''IsJsonExtension'' =
           (if Bool c (FlagName flIsXMLExtension) then None else Some ''true'')"
    by auto
  then show ?thesis
    using unpublish_bodies [of ev lg c] unpublish_bodies_given [of c ev lg] by auto
qed

theorem manifest_elements_in_order_witness:
  "plain (String example_ctx (FlagName flNamespace)) \<and>
   plain (String example_ctx (FlagName flName)) \<and>
   plain (String example_ctx (FlagName flVersion)) \<and>
   flags_given example_ctx \<and>
   \<not> Bool example_ctx (FlagName flIsXMLExtension) \<and>
   request_bodies (fst (unpublishVersion (example_env example_client) (init example_logger) example_ctx))
     = [body_of example_ctx] \<and>
   map_option (\<lambda>doc. map fst (child_elements doc)) (xml_parse (body_of example_ctx)) =
     Some [''ProviderNameSpace'', ''Type'', ''Version'', ''IsInternalExtension'', ''IsJsonExtension''] \<and>
   map_option (\<lambda>doc. map_of (child_elements doc) ''IsInternalExtension'') (xml_parse (body_of example_ctx))
     = Some (Some ''true'') \<and>
   map_option (\<lambda>doc. map_of (child_elements doc) ''IsJsonExtension'') (xml_parse (body_of example_ctx))
     = Some (Some ''true'')"
  using manifest_elements_in_order [OF example_plain, of "example_env example_client" "init example_logger"]
  by (auto simp: example_plain example_flags_given example_client_of example_xml_flag)

text \<open>
  C9 as stated fails for a value that holds markup: the values are inserted as they are,
  so with \<^verbatim>\<open>--is-xml-extension\<close> set and a name that closes \<open>Type\<close> and opens an
  \<open>IsJsonExtension\<close> element of its own, the body sent holds \<open>IsJsonExtension\<close>, and
  before \<open>Version\<close>.
\<close>

theorem injected_name_adds_element:
  "Bool example_ctx_injected (FlagName flIsXMLExtension) \<and>
   request_bodies
     (fst (unpublishVersion (example_env example_client) (init example_logger) example_ctx_injected))
     = [body_of example_ctx_injected] \<and>
   map_option child_elements (xml_parse (body_of example_ctx_injected)) =
     Some [(''ProviderNameSpace'', ''Microsoft.Azure.Extensions''), (''Type'', ''x''),
           (''IsJsonExtension'', ''true''), (''Type'', ''y''), (''Version'', ''1.0.0''),
           (''IsInternalExtension'', ''true'')]"
  by (simp add: unpublish_bodies_given [OF injected_flags_given injected_client_of]
      injected_body injected_parsed)
    (simp add: example_ctx_injected_def flag_defs)

text \<open>
  C1, as amended. The template engine inserts the three values as they are, without
  escaping. When namespace, name and version are plain character data (printable ASCII,
  tab and line feed, with no \<open><\<close>, no \<open>&\<close> and no \<open>]]>\<close>), every body passed to
  \<^verbatim>\<open>UpdateExtension\<close> is a well-formed \<open>ExtensionImage\<close> document whose
  \<open>ProviderNameSpace\<close>, \<open>Type\<close> and \<open>Version\<close> elements hold exactly those values, followed
  by \<open>IsInternalExtension\<close> and, unless \<^verbatim>\<open>--is-xml-extension\<close> is set, \<open>IsJsonExtension\<close>.
  With all flags given and the client created, that body is sent.
\<close>

theorem request_body_is_manifest:
  assumes "plain (String c (FlagName flNamespace))" and "plain (String c (FlagName flName))"
    and "plain (String c (FlagName flVersion))"
  shows
   "(\<forall>b \<in> set (request_bodies (fst (unpublishVersion ev lg c))).
       well_formed b \<and>
       map_option root_name (xml_parse b) = Some ''ExtensionImage'' \<and>
       map_option child_elements (xml_parse b) =
         Some ([(''ProviderNameSpace'', String c (FlagName flNamespace)),
                (''Type'', String c (FlagName flName)),
                (''Version'', String c (FlagName flVersion)),
                (''IsInternalExtension'', ''true'')] @
               (if Bool c (FlagName flIsXMLExtension) then [] else [(''IsJsonExtension'', ''true'')]))) \<and>
    (\<forall>es cl. flags_given c \<and> client_of ev lg c = (es, Inr cl) \<longrightarrow>
       request_bodies (fst (unpublishVersion ev lg c)) = [body_of c])"
proof -
  have parsed:
    "map_option root_name (xml_parse (body_of c)) = Some ''ExtensionImage'' \<and>
     map_option child_elements (xml_parse (body_of c)) =
       Some ([(''ProviderNameSpace'', String c (FlagName flNamespace)),
              (''Type'', String c (FlagName flName)),
              (''Version'', String c (FlagName flVersion)),
              (''IsInternalExtension'', ''true'')] @
             (if Bool c (FlagName flIsXMLExtension) then [] else [(''IsJsonExtension'', ''true'')]))"
    unfolding body_of_def by (rule manifest_parse [OF assms])
  then have "well_formed (body_of c)"
    by (auto simp: well_formed_def)
  with parsed show ?thesis
    using unpublish_bodies [of ev lg c] unpublish_bodies_given [of c ev lg] by auto
qed

theorem request_body_is_manifest_witness:
  "plain (String example_ctx (FlagName flNamespace)) \<and>
   plain (String example_ctx (FlagName flName)) \<and>
   plain (String example_ctx (FlagName flVersion)) \<and>
   flags_given example_ctx \<and>
   request_bodies (fst (unpublishVersion (example_env example_client) (init example_logger) example_ctx))
     = [body_of example_ctx] \<and>
   well_formed (body_of example_ctx) \<and>
   map_option root_name (xml_parse (body_of example_ctx)) = Some ''ExtensionImage'' \<and>
   map_option child_elements (xml_parse (body_of example_ctx)) =
     Some [(''ProviderNameSpace'', ''Microsoft.Azure.Extensions''), (''Type'', ''FooExtension''),
           (''Version'', ''1.0.0''), (''IsInternalExtension'', ''true''),
           (''IsJsonExtension'', ''true'')]"
  using request_body_is_manifest [OF example_plain, of "example_env example_client" "init example_logger"]
  by (simp add: example_plain example_flags_given example_client_of example_xml_flag)
    (simp add: example_names)

text \<open>
  C1 as stated fails for a value that holds markup: with the namespace \<open>a<b\<close> the body
  sent to \<^verbatim>\<open>UpdateExtension\<close> is not well-formed.
\<close>

theorem markup_breaks_manifest:
  "String example_ctx_markup (FlagName flNamespace) = ''a<b'' \<and>
   request_bodies
     (fst (unpublishVersion (example_env example_client) (init example_logger) example_ctx_markup))
     = [body_of example_ctx_markup] \<and>
   \<not> well_formed (body_of example_ctx_markup)"
  by (simp add: unpublish_bodies_given [OF example_markup_flags_given example_markup_client_of]
      well_formed_def example_markup_body example_markup_unparsed)
    (simp add: example_ctx_markup_def flag_defs)

end
